theory Spec2Isabelle
  imports Main "HOL-Library.Sublist"
begin

section \<open>Data model\<close>

text \<open>
  The authentication service of the repository (\<^verbatim>\<open>apps/auth/src\<close>): the message handlers of
  \<^verbatim>\<open>AuthController\<close>, the operations of \<^verbatim>\<open>AuthService\<close>, and the two HTTP endpoints of
  \<^verbatim>\<open>AppController\<close> that consume login and refresh results.

  The interfaces \<^verbatim>\<open>User\<close>, \<^verbatim>\<open>CreateUserDto\<close>, \<^verbatim>\<open>EmailAndUsernameDto\<close>, \<^verbatim>\<open>LoginUserDto\<close>,
  \<^verbatim>\<open>UpdatePassword\<close> and \<^verbatim>\<open>ErrorData\<close> are imported from the shared library; the records
  below carry the fields the service reads or writes. The field \<^verbatim>\<open>_id\<close> of a user is
  written \<open>user_id\<close>.
\<close>

record EmailAndUsernameDto =
  email :: string
  username :: string

record CreateUserDto =
  username :: string
  email :: string
  password :: string

record LoginUserDto =
  usernameOrEmail :: string
  password :: string

record UpdatePassword =
  userId :: string
  password :: string

record User =
  user_id :: string
  password :: string

record ErrorData =
  statusCode :: nat
  error :: string

text \<open>\<^verbatim>\<open>interfaces/jwtToken.interface.ts\<close>\<close>

record Jwt =
  accessToken :: string
  refreshToken :: string

record JwtPayload =
  sub :: string

text \<open>
  What \<^verbatim>\<open>verifyAsync\<close> hands back at run time: the claim the token was signed over
  together with the registered claims the signer added.
\<close>

record DecodedJwt = JwtPayload +
  iat :: nat
  exp :: nat

text \<open>A JavaScript value of type \<^verbatim>\<open>T | null | undefined\<close>.\<close>

datatype 'a js = Undefined | Null | Val 'a

text \<open>The return type \<^verbatim>\<open>ErrorData | boolean\<close> of registration.\<close>

datatype RegisterResult = Failure ErrorData | Boolean bool

text \<open>Thrown values (rejected promises).\<close>

datatype exn =
    Error string
  | TypeError string
  | JsonWebTokenError string
  | TokenExpiredError string

text \<open>The two variables of \<^verbatim>\<open>process.env\<close> the service reads; an unset variable is \<open>None\<close>.\<close>

datatype env_var = JWT_ACCESS_SECRET | JWT_REFRESH_SECRET

record SignOptions =
  expiresIn :: string
  secret :: "string option"

section \<open>Collaborators and effects\<close>

text \<open>
  Every call that leaves the service is recorded as an event together with what it
  returned (\<open>Inr\<close>) or threw (\<open>Inl\<close>). \<open>Ack\<close> and \<open>Nack\<close> are the two callbacks of the
  extracted request envelope, \<open>ConsoleLog\<close> is \<^verbatim>\<open>console.log(error)\<close>. The two
  \<open>_malformed\<close> events are the calls of \<^verbatim>\<open>verifyAsync\<close> and \<^verbatim>\<open>Scrypt.hashPassword\<close> on a
  payload that is \<^verbatim>\<open>undefined\<close> or \<^verbatim>\<open>null\<close> instead of a string.
\<close>

datatype event =
    Send_find_user EmailAndUsernameDto "exn + User option"
  | Send_create_user CreateUserDto "exn + string option"
  | Send_is_userid_exist string "exn + bool"
  | Send_update_password UpdatePassword "exn + bool"
  | SignAsync JwtPayload SignOptions "exn + string"
  | VerifyAsync string "string option" "exn + DecodedJwt"
  | ScryptVerify string string "exn + bool"
  | ScryptHash string "exn + string"
  | VerifyAsync_malformed "string js" "string option" "exn + DecodedJwt"
  | ScryptHash_malformed "string js" "exn + string"
  | ConsoleLog exn
  | Ack
  | Nack

text \<open>
  The collaborators are parameters of the model: the user directory reached through
  \<^verbatim>\<open>userService.send\<close>, the \<^verbatim>\<open>JwtService\<close>, the \<^verbatim>\<open>Scrypt\<close> utility and \<^verbatim>\<open>process.env\<close>.
  Each call reads and may change a world \<open>'w\<close> (directory contents, clock, randomness),
  and either returns or throws. The last two fields are what \<^verbatim>\<open>verifyAsync\<close> and
  \<^verbatim>\<open>Scrypt.hashPassword\<close> do when they are handed \<^verbatim>\<open>undefined\<close> or \<^verbatim>\<open>null\<close> in place of
  a string.
\<close>

record 'w env =
  process_env :: "env_var \<Rightarrow> string option"
  find_user_by_email_or_username :: "EmailAndUsernameDto \<Rightarrow> 'w \<Rightarrow> (exn + User option) \<times> 'w"
  create_user :: "CreateUserDto \<Rightarrow> 'w \<Rightarrow> (exn + string option) \<times> 'w"
  is_userid_exist :: "string \<Rightarrow> 'w \<Rightarrow> (exn + bool) \<times> 'w"
  update_password :: "UpdatePassword \<Rightarrow> 'w \<Rightarrow> (exn + bool) \<times> 'w"
  jwt_signAsync :: "JwtPayload \<Rightarrow> SignOptions \<Rightarrow> 'w \<Rightarrow> (exn + string) \<times> 'w"
  jwt_verifyAsync :: "string \<Rightarrow> string option \<Rightarrow> 'w \<Rightarrow> (exn + DecodedJwt) \<times> 'w"
  Scrypt_verifyPassword :: "string \<Rightarrow> string \<Rightarrow> 'w \<Rightarrow> (exn + bool) \<times> 'w"
  Scrypt_hashPassword :: "string \<Rightarrow> 'w \<Rightarrow> (exn + string) \<times> 'w"
  jwt_verifyAsync_malformed :: "string js \<Rightarrow> string option \<Rightarrow> 'w \<Rightarrow> (exn + DecodedJwt) \<times> 'w"
  Scrypt_hashPassword_malformed :: "string js \<Rightarrow> 'w \<Rightarrow> (exn + string) \<times> 'w"

text \<open>
  An asynchronous computation run to completion: its result or the error it rejected
  with, the world it leaves, and the events it emitted, oldest first.
\<close>

record ('w, 'a) outcome =
  result :: "exn + 'a"
  world :: 'w
  events :: "event list"

type_synonym ('w, 'a) io = "'w \<Rightarrow> ('w, 'a) outcome"

definition resolve :: "'a \<Rightarrow> ('w, 'a) io" where
  "resolve x w = \<lparr>result = Inr x, world = w, events = []\<rparr>"

definition emit :: "event \<Rightarrow> ('w, unit) io" where
  "emit ev w = \<lparr>result = Inr (), world = w, events = [ev]\<rparr>"

text \<open>\<^verbatim>\<open>const x = await m; k(x)\<close>: a rejection of \<open>m\<close> skips \<open>k\<close>.\<close>

definition await :: "('w, 'a) io \<Rightarrow> ('a \<Rightarrow> ('w, 'b) io) \<Rightarrow> ('w, 'b) io" where
  "await m k w =
     (let o1 = m w in
      case result o1 of
        Inl e \<Rightarrow> \<lparr>result = Inl e, world = world o1, events = events o1\<rparr>
      | Inr x \<Rightarrow>
          (let o2 = k x (world o1) in
           \<lparr>result = result o2, world = world o2, events = events o1 @ events o2\<rparr>))"

text \<open>\<^verbatim>\<open>try { m } catch (error) { h(error) }\<close>\<close>

definition try_catch :: "('w, 'a) io \<Rightarrow> (exn \<Rightarrow> ('w, 'a) io) \<Rightarrow> ('w, 'a) io" where
  "try_catch m h w =
     (let o1 = m w in
      case result o1 of
        Inl e \<Rightarrow>
          (let o2 = h e (world o1) in
           \<lparr>result = result o2, world = world o2, events = events o1 @ events o2\<rparr>)
      | Inr x \<Rightarrow> o1)"

text \<open>A call to a collaborator, recorded with its outcome.\<close>

definition call :: "('w \<Rightarrow> (exn + 'a) \<times> 'w) \<Rightarrow> (exn + 'a \<Rightarrow> event) \<Rightarrow> ('w, 'a) io" where
  "call f ev w = (case f w of (r, w') \<Rightarrow> \<lparr>result = r, world = w', events = [ev r]\<rparr>)"

text \<open>
  \<^verbatim>\<open>await Promise.all([m1, m2])\<close>: both operations are started, in array order, before
  either result is looked at, and both run whatever the other does. The combined promise
  fulfils with both values when both fulfil and rejects when either rejects. (When both
  reject, JavaScript reports the rejection that happened first; the model reports the one
  of \<open>m1\<close>. The callers only log the error.) An operation reports its failure by
  rejecting its promise.
\<close>

definition Promise_all2 :: "('w, 'a) io \<Rightarrow> ('w, 'b) io \<Rightarrow> ('w, 'a \<times> 'b) io" where
  "Promise_all2 m1 m2 w =
     (let o1 = m1 w; o2 = m2 (world o1) in
      \<lparr>result =
         (case result o1 of
            Inl e \<Rightarrow> Inl e
          | Inr a \<Rightarrow> (case result o2 of Inl e \<Rightarrow> Inl e | Inr b \<Rightarrow> Inr (a, b))),
       world = world o2,
       events = events o1 @ events o2\<rparr>)"

text \<open>\<^verbatim>\<open>firstValueFrom(this.userService.send(pattern, data))\<close> for the four patterns.\<close>

definition send_find_user :: "'w env \<Rightarrow> EmailAndUsernameDto \<Rightarrow> ('w, User option) io" where
  "send_find_user env dto = call (find_user_by_email_or_username env dto) (Send_find_user dto)"

definition send_create_user :: "'w env \<Rightarrow> CreateUserDto \<Rightarrow> ('w, string option) io" where
  "send_create_user env dto = call (create_user env dto) (Send_create_user dto)"

definition send_is_userid_exist :: "'w env \<Rightarrow> string \<Rightarrow> ('w, bool) io" where
  "send_is_userid_exist env i = call (is_userid_exist env i) (Send_is_userid_exist i)"

definition send_update_password :: "'w env \<Rightarrow> UpdatePassword \<Rightarrow> ('w, bool) io" where
  "send_update_password env up = call (update_password env up) (Send_update_password up)"

definition signAsync :: "'w env \<Rightarrow> JwtPayload \<Rightarrow> SignOptions \<Rightarrow> ('w, string) io" where
  "signAsync env payload opts = call (jwt_signAsync env payload opts) (SignAsync payload opts)"

definition verifyAsync :: "'w env \<Rightarrow> string \<Rightarrow> string option \<Rightarrow> ('w, DecodedJwt) io" where
  "verifyAsync env token sec = call (jwt_verifyAsync env token sec) (VerifyAsync token sec)"

definition verifyPassword :: "'w env \<Rightarrow> string \<Rightarrow> string \<Rightarrow> ('w, bool) io" where
  "verifyPassword env plain digest =
     call (Scrypt_verifyPassword env plain digest) (ScryptVerify plain digest)"

section \<open>AuthService\<close>

text \<open>\<^verbatim>\<open>!userId\<close> on a \<^verbatim>\<open>string | null\<close>: null and the empty string are falsy.\<close>

fun falsy :: "string option \<Rightarrow> bool" where
  "falsy None = True"
| "falsy (Some s) = (s = [])"

definition AuthService_register :: "'w env \<Rightarrow> CreateUserDto \<Rightarrow> ('w, RegisterResult) io" where
  "AuthService_register env createUserDto =
     await (send_find_user env
              \<lparr>EmailAndUsernameDto.email = CreateUserDto.email createUserDto,
               EmailAndUsernameDto.username = CreateUserDto.username createUserDto\<rparr>)
       (\<lambda>user.
          if user \<noteq> None then
            resolve (Failure \<lparr>statusCode = 2002, error = ''User already exists''\<rparr>)
          else
            await (send_create_user env createUserDto)
              (\<lambda>userId.
                 if falsy userId \<or> userId = None then
                   resolve (Failure \<lparr>statusCode = 2003, error = ''User creation failed''\<rparr>)
                 else resolve (Boolean True)))"

definition AuthService_hashPassword :: "'w env \<Rightarrow> string \<Rightarrow> ('w, string) io" where
  "AuthService_hashPassword env pw = call (Scrypt_hashPassword env pw) (ScryptHash pw)"

definition validateUser :: "'w env \<Rightarrow> string \<Rightarrow> string \<Rightarrow> ('w, User option) io" where
  "validateUser env emailOrUsername pw =
     await (send_find_user env
              \<lparr>EmailAndUsernameDto.email = emailOrUsername,
               EmailAndUsernameDto.username = emailOrUsername\<rparr>)
       (\<lambda>user.
          case user of
            None \<Rightarrow> resolve None
          | Some u \<Rightarrow>
              await (verifyPassword env pw (User.password u))
                (\<lambda>isPasswordMatched.
                   if isPasswordMatched then
                     await (AuthService_hashPassword env pw)
                       (\<lambda>newPassword.
                          await (send_update_password env
                                   \<lparr>userId = user_id u, UpdatePassword.password = newPassword\<rparr>)
                            (\<lambda>res. resolve (if res then Some u else None)))
                   else resolve None))"

definition generateJWT :: "'w env \<Rightarrow> JwtPayload \<Rightarrow> ('w, Jwt) io" where
  "generateJWT env payload =
     await (Promise_all2
              (signAsync env payload
                 \<lparr>expiresIn = ''3m'', secret = process_env env JWT_ACCESS_SECRET\<rparr>)
              (signAsync env payload
                 \<lparr>expiresIn = ''7d'', secret = process_env env JWT_REFRESH_SECRET\<rparr>))
       (\<lambda>(a, r). resolve \<lparr>accessToken = a, refreshToken = r\<rparr>)"

definition AuthService_login :: "'w env \<Rightarrow> LoginUserDto \<Rightarrow> ('w, Jwt js) io" where
  "AuthService_login env loginUserDto =
     await (validateUser env (usernameOrEmail loginUserDto) (LoginUserDto.password loginUserDto))
       (\<lambda>user.
          case user of
            None \<Rightarrow> resolve Undefined
          | Some u \<Rightarrow>
              await (generateJWT env \<lparr>sub = user_id u\<rparr>) (\<lambda>jwt. resolve (Val jwt)))"

text \<open>
  \<^verbatim>\<open>s.split(sep)\<close> for a one-character separator: the pieces between the separators,
  empty pieces included; the result is never empty.
\<close>

fun split_on :: "char \<Rightarrow> string \<Rightarrow> string list" where
  "split_on c [] = [[]]"
| "split_on c (x # xs) =
     (if x = c then [] # split_on c xs
      else (case split_on c xs of
              [] \<Rightarrow> [[x]]
            | piece # pieces \<Rightarrow> (x # piece) # pieces))"

definition reject :: "exn \<Rightarrow> ('w, 'a) io" where
  "reject e w = \<lparr>result = Inl e, world = w, events = []\<rparr>"

text \<open>
  \<^verbatim>\<open>refresh\<close>: the prefix test, the split and the awaited \<^verbatim>\<open>verifyAsync\<close> are inside
  the \<^verbatim>\<open>try\<close>; the early \<^verbatim>\<open>return undefined\<close> and the \<^verbatim>\<open>catch\<close> both yield \<open>None\<close> here.
  The last statement of the \<^verbatim>\<open>try\<close> block is \<^verbatim>\<open>return this.generateJWT(...)\<close> without
  \<^verbatim>\<open>await\<close>: the promise is handed to the caller as it is, so a rejection of
  \<^verbatim>\<open>generateJWT\<close> is not seen by the \<^verbatim>\<open>catch\<close> and rejects \<^verbatim>\<open>refresh\<close> itself.
  Index 1 of the split exists whenever the prefix test passed; without it
  \<^verbatim>\<open>verifyAsync(undefined)\<close> would throw.
\<close>

definition AuthService_refresh :: "'w env \<Rightarrow> string \<Rightarrow> ('w, Jwt js) io" where
  "AuthService_refresh env refresh_token =
     await (try_catch
              (if prefix ''Bearer '' refresh_token then
                 (case split_on CHR '' '' refresh_token of
                    _ # token # _ \<Rightarrow>
                      await (verifyAsync env token (process_env env JWT_REFRESH_SECRET))
                        (\<lambda>payload. resolve (Some payload))
                  | _ \<Rightarrow> reject (JsonWebTokenError ''jwt must be provided''))
               else resolve None)
              (\<lambda>err. await (emit (ConsoleLog err)) (\<lambda>_. resolve None)))
       (\<lambda>verified.
          case verified of
            None \<Rightarrow> resolve Undefined
          | Some payload \<Rightarrow>
              await (generateJWT env \<lparr>sub = sub payload\<rparr>) (\<lambda>jwt. resolve (Val jwt)))"

definition AuthService_validateJwt :: "'w env \<Rightarrow> string \<Rightarrow> ('w, DecodedJwt js) io" where
  "AuthService_validateJwt env jwt =
     try_catch
       (await (verifyAsync env jwt (process_env env JWT_ACCESS_SECRET))
          (\<lambda>payload.
             await (send_is_userid_exist env (sub payload))
               (\<lambda>isUserExist.
                  if \<not> isUserExist then resolve Undefined else resolve (Val payload))))
       (\<lambda>err. resolve Undefined)"

section \<open>AuthController\<close>

text \<open>
  A handler starts from the envelope \<^verbatim>\<open>extractData\<close> produced: its \<open>data\<close> is the
  argument, its callbacks \<^verbatim>\<open>ack()\<close> and \<^verbatim>\<open>nack()\<close> are the events \<open>Ack\<close> and \<open>Nack\<close>.
  The callbacks and \<^verbatim>\<open>console.log\<close> are taken to return normally.
\<close>

definition AuthController_register :: "'w env \<Rightarrow> CreateUserDto \<Rightarrow> ('w, RegisterResult) io" where
  "AuthController_register env data =
     try_catch
       (await (AuthService_register env data)
          (\<lambda>res. await (emit Ack) (\<lambda>_. resolve res)))
       (\<lambda>err.
          await (emit (ConsoleLog err))
            (\<lambda>_. await (emit Nack) (\<lambda>_. resolve (Boolean False))))"

definition AuthController_login :: "'w env \<Rightarrow> LoginUserDto \<Rightarrow> ('w, Jwt js) io" where
  "AuthController_login env data =
     try_catch
       (await (AuthService_login env data)
          (\<lambda>res. await (emit Ack) (\<lambda>_. resolve res)))
       (\<lambda>err.
          await (emit (ConsoleLog err))
            (\<lambda>_. await (emit Nack) (\<lambda>_. resolve Null)))"

definition AuthController_refresh :: "'w env \<Rightarrow> string \<Rightarrow> ('w, Jwt js) io" where
  "AuthController_refresh env data =
     try_catch
       (await (AuthService_refresh env data)
          (\<lambda>res. await (emit Ack) (\<lambda>_. resolve res)))
       (\<lambda>err.
          await (emit (ConsoleLog err))
            (\<lambda>_. await (emit Nack) (\<lambda>_. resolve Null)))"

definition AuthController_hashPassword :: "'w env \<Rightarrow> string \<Rightarrow> ('w, string js) io" where
  "AuthController_hashPassword env data =
     try_catch
       (await (AuthService_hashPassword env data)
          (\<lambda>res. await (emit Ack) (\<lambda>_. resolve (Val res))))
       (\<lambda>err.
          await (emit (ConsoleLog err))
            (\<lambda>_. await (emit Nack) (\<lambda>_. resolve Null)))"

definition AuthController_validate :: "'w env \<Rightarrow> string \<Rightarrow> ('w, DecodedJwt js) io" where
  "AuthController_validate env data =
     try_catch
       (await (AuthService_validateJwt env data)
          (\<lambda>res. await (emit Ack) (\<lambda>_. resolve res)))
       (\<lambda>err.
          await (emit (ConsoleLog err))
            (\<lambda>_. await (emit Nack) (\<lambda>_. resolve Null)))"

section \<open>Malformed envelopes\<close>

text \<open>
  Nothing checks the payload of an envelope against its declared type before the handler
  uses it. The handlers below are the five handlers on a payload that may be absent:
  \<open>Val d\<close> is a payload of the declared type, on which they are the handlers above, and
  \<open>Undefined\<close> and \<open>Null\<close> are the malformed ones. Reading a property or calling a method
  of \<^verbatim>\<open>undefined\<close> or \<^verbatim>\<open>null\<close> throws a \<^verbatim>\<open>TypeError\<close>.
\<close>

fun malformed :: "'a js \<Rightarrow> bool" where
  "malformed (Val d) = False"
| "malformed _ = True"

fun cannot_read :: "'a js \<Rightarrow> exn" where
  "cannot_read Null = TypeError ''Cannot read properties of null''"
| "cannot_read _ = TypeError ''Cannot read properties of undefined''"

text \<open>
  \<^verbatim>\<open>register\<close> reads \<^verbatim>\<open>createUserDto.email\<close> and \<^verbatim>\<open>login\<close> reads
  \<^verbatim>\<open>loginUserDto.usernameOrEmail\<close> before anything is called, outside any \<^verbatim>\<open>try\<close>.
\<close>

definition AuthService_register_raw ::
  "'w env \<Rightarrow> CreateUserDto js \<Rightarrow> ('w, RegisterResult) io" where
  "AuthService_register_raw env createUserDto =
     (case createUserDto of
        Val dto \<Rightarrow> AuthService_register env dto
      | _ \<Rightarrow> reject (cannot_read createUserDto))"

definition AuthService_login_raw :: "'w env \<Rightarrow> LoginUserDto js \<Rightarrow> ('w, Jwt js) io" where
  "AuthService_login_raw env loginUserDto =
     (case loginUserDto of
        Val dto \<Rightarrow> AuthService_login env dto
      | _ \<Rightarrow> reject (cannot_read loginUserDto))"

text \<open>
  \<^verbatim>\<open>refresh\<close> calls \<^verbatim>\<open>refreshToken.startsWith\<close> inside its \<^verbatim>\<open>try\<close>: the \<^verbatim>\<open>TypeError\<close> is
  caught, logged, and \<^verbatim>\<open>undefined\<close> is returned.
\<close>

definition AuthService_refresh_raw :: "'w env \<Rightarrow> string js \<Rightarrow> ('w, Jwt js) io" where
  "AuthService_refresh_raw env refresh_token =
     (case refresh_token of
        Val s \<Rightarrow> AuthService_refresh env s
      | _ \<Rightarrow>
          try_catch (reject (cannot_read refresh_token))
            (\<lambda>err. await (emit (ConsoleLog err)) (\<lambda>_. resolve Undefined)))"

text \<open>
  \<^verbatim>\<open>validateJwt\<close> and \<^verbatim>\<open>hashPassword\<close> hand the payload to \<^verbatim>\<open>verifyAsync\<close> and to
  \<^verbatim>\<open>Scrypt.hashPassword\<close> as it is.
\<close>

definition AuthService_validateJwt_raw :: "'w env \<Rightarrow> string js \<Rightarrow> ('w, DecodedJwt js) io" where
  "AuthService_validateJwt_raw env jwt =
     (case jwt of
        Val token \<Rightarrow> AuthService_validateJwt env token
      | _ \<Rightarrow>
          try_catch
            (await (call (jwt_verifyAsync_malformed env jwt (process_env env JWT_ACCESS_SECRET))
                      (VerifyAsync_malformed jwt (process_env env JWT_ACCESS_SECRET)))
               (\<lambda>payload.
                  await (send_is_userid_exist env (sub payload))
                    (\<lambda>isUserExist.
                       if \<not> isUserExist then resolve Undefined else resolve (Val payload))))
            (\<lambda>err. resolve Undefined))"

definition AuthService_hashPassword_raw :: "'w env \<Rightarrow> string js \<Rightarrow> ('w, string) io" where
  "AuthService_hashPassword_raw env pw =
     (case pw of
        Val plain \<Rightarrow> AuthService_hashPassword env plain
      | _ \<Rightarrow> call (Scrypt_hashPassword_malformed env pw) (ScryptHash_malformed pw))"

definition AuthController_register_raw ::
  "'w env \<Rightarrow> CreateUserDto js \<Rightarrow> ('w, RegisterResult) io" where
  "AuthController_register_raw env data =
     try_catch
       (await (AuthService_register_raw env data)
          (\<lambda>res. await (emit Ack) (\<lambda>_. resolve res)))
       (\<lambda>err.
          await (emit (ConsoleLog err))
            (\<lambda>_. await (emit Nack) (\<lambda>_. resolve (Boolean False))))"

definition AuthController_login_raw :: "'w env \<Rightarrow> LoginUserDto js \<Rightarrow> ('w, Jwt js) io" where
  "AuthController_login_raw env data =
     try_catch
       (await (AuthService_login_raw env data)
          (\<lambda>res. await (emit Ack) (\<lambda>_. resolve res)))
       (\<lambda>err.
          await (emit (ConsoleLog err))
            (\<lambda>_. await (emit Nack) (\<lambda>_. resolve Null)))"

definition AuthController_refresh_raw :: "'w env \<Rightarrow> string js \<Rightarrow> ('w, Jwt js) io" where
  "AuthController_refresh_raw env data =
     try_catch
       (await (AuthService_refresh_raw env data)
          (\<lambda>res. await (emit Ack) (\<lambda>_. resolve res)))
       (\<lambda>err.
          await (emit (ConsoleLog err))
            (\<lambda>_. await (emit Nack) (\<lambda>_. resolve Null)))"

definition AuthController_hashPassword_raw :: "'w env \<Rightarrow> string js \<Rightarrow> ('w, string js) io" where
  "AuthController_hashPassword_raw env data =
     try_catch
       (await (AuthService_hashPassword_raw env data)
          (\<lambda>res. await (emit Ack) (\<lambda>_. resolve (Val res))))
       (\<lambda>err.
          await (emit (ConsoleLog err))
            (\<lambda>_. await (emit Nack) (\<lambda>_. resolve Null)))"

definition AuthController_validate_raw :: "'w env \<Rightarrow> string js \<Rightarrow> ('w, DecodedJwt js) io" where
  "AuthController_validate_raw env data =
     try_catch
       (await (AuthService_validateJwt_raw env data)
          (\<lambda>res. await (emit Ack) (\<lambda>_. resolve res)))
       (\<lambda>err.
          await (emit (ConsoleLog err))
            (\<lambda>_. await (emit Nack) (\<lambda>_. resolve Null)))"

section \<open>AppController: the HTTP endpoints for login and refresh\<close>

text \<open>
  \<^verbatim>\<open>ServerResponse<T>\<close> as the two endpoints fill it; an absent (\<^verbatim>\<open>undefined\<close>) message or
  error code is \<open>None\<close>. \<open>Response\<close> is what \<^verbatim>\<open>res.status(n).json(body)\<close> sends.
\<close>

record 'a ServerResponse =
  isOk :: bool
  message :: "string option"
  errorCode :: "nat option"
  data :: "'a js"

record 'a Response =
  status :: nat
  body :: "'a ServerResponse"

record AuthRequest =
  headers :: "string \<Rightarrow> string option"

text \<open>\<^verbatim>\<open>!jwt\<close>: \<^verbatim>\<open>undefined\<close> and \<^verbatim>\<open>null\<close> are falsy, an object is truthy.\<close>

fun not_js :: "'a js \<Rightarrow> bool" where
  "not_js Undefined = True"
| "not_js Null = True"
| "not_js (Val v) = False"

text \<open>
  The parameter \<open>authService_send\<close> is \<^verbatim>\<open>firstValueFrom(this.authService.send(pattern, x))\<close>:
  the value the auth service's reply arrives as, or a rejection.
\<close>

definition AppController_login ::
  "(LoginUserDto \<Rightarrow> ('w, Jwt js) io) \<Rightarrow> LoginUserDto \<Rightarrow> ('w, Jwt Response) io" where
  "AppController_login authService_send loginUserDto =
     await (authService_send loginUserDto)
       (\<lambda>jwt.
          let isJwtValid = (jwt \<noteq> Null) in
          resolve
            \<lparr>status = (if not_js jwt then 400 else 200),
             body =
               \<lparr>isOk = isJwtValid,
                message =
                  (if \<not> isJwtValid then Some ''Invalid username, email or password'' else None),
                errorCode = (if \<not> isJwtValid then Some 2004 else None),
                data = (if \<not> isJwtValid then Undefined else jwt)\<rparr>\<rparr>)"

definition AppController_refreshToken ::
  "(string option \<Rightarrow> ('w, Jwt js) io) \<Rightarrow> AuthRequest \<Rightarrow> ('w, Jwt Response) io" where
  "AppController_refreshToken authService_send req =
     await (authService_send (headers req ''x-refresh-token''))
       (\<lambda>jwt.
          let isJwtValid = (jwt \<noteq> Null) in
          resolve
            \<lparr>status = (if not_js jwt then 401 else 200),
             body =
               \<lparr>isOk = isJwtValid,
                message = (if \<not> isJwtValid then Some ''Invalid refresh token'' else None),
                errorCode = (if \<not> isJwtValid then Some 2005 else None),
                data = (if \<not> isJwtValid then Undefined else jwt)\<rparr>\<rparr>)"

section \<open>Lifetimes in the concrete deployment\<close>

text \<open>
  The toy verifier of the concrete deployment below reads the lifetime field of its own
  tokens with this function: a decimal number followed by one unit letter (\<^verbatim>\<open>s\<close>, \<^verbatim>\<open>m\<close>,
  \<^verbatim>\<open>h\<close>, \<^verbatim>\<open>d\<close>, \<^verbatim>\<open>w\<close>), as a number of seconds. It is not the signing library's
  parser and no operation of the service uses it.
\<close>

definition unit_seconds :: "char \<Rightarrow> nat option" where
  "unit_seconds c =
     (if c = CHR ''s'' then Some 1
      else if c = CHR ''m'' then Some 60
      else if c = CHR ''h'' then Some (60 * 60)
      else if c = CHR ''d'' then Some (24 * 60 * 60)
      else if c = CHR ''w'' then Some (7 * 24 * 60 * 60)
      else None)"

definition digit_value :: "char \<Rightarrow> nat option" where
  "digit_value c =
     (let n = (of_char c :: nat) in if 48 \<le> n \<and> n \<le> 57 then Some (n - 48) else None)"

fun decimal :: "nat \<Rightarrow> string \<Rightarrow> nat option" where
  "decimal acc [] = Some acc"
| "decimal acc (c # cs) =
     (case digit_value c of None \<Rightarrow> None | Some d \<Rightarrow> decimal (10 * acc + d) cs)"

definition timespan_seconds :: "string \<Rightarrow> nat option" where
  "timespan_seconds s =
     (case rev s of
        [] \<Rightarrow> None
      | u # ds \<Rightarrow>
          (if ds = [] then None
           else (case (decimal 0 (rev ds), unit_seconds u) of
                   (Some n, Some k) \<Rightarrow> Some (n * k)
                 | _ \<Rightarrow> None)))"

section \<open>Reading a trace\<close>

fun is_sign :: "event \<Rightarrow> bool" where
  "is_sign (SignAsync payload opts r) = True"
| "is_sign _ = False"

text \<open>The two callbacks that settle a request.\<close>

fun settles :: "event \<Rightarrow> bool" where
  "settles Ack = True"
| "settles Nack = True"
| "settles _ = False"

text \<open>A collaborator call that threw.\<close>

fun threw :: "event \<Rightarrow> bool" where
  "threw (Send_find_user q r) = isl r"
| "threw (Send_create_user dto r) = isl r"
| "threw (Send_is_userid_exist i r) = isl r"
| "threw (Send_update_password up r) = isl r"
| "threw (SignAsync payload opts r) = isl r"
| "threw (VerifyAsync token sec r) = isl r"
| "threw (ScryptVerify plain digest r) = isl r"
| "threw (ScryptHash plain r) = isl r"
| "threw (VerifyAsync_malformed token sec r) = isl r"
| "threw (ScryptHash_malformed plain r) = isl r"
| "threw _ = False"

text \<open>The error of a collaborator call that threw.\<close>

fun error_of :: "exn + 'a \<Rightarrow> exn option" where
  "error_of (Inl e) = Some e"
| "error_of (Inr v) = None"

fun thrown :: "event \<Rightarrow> exn option" where
  "thrown (Send_find_user q r) = error_of r"
| "thrown (Send_create_user dto r) = error_of r"
| "thrown (Send_is_userid_exist i r) = error_of r"
| "thrown (Send_update_password up r) = error_of r"
| "thrown (SignAsync payload opts r) = error_of r"
| "thrown (VerifyAsync token sec r) = error_of r"
| "thrown (ScryptVerify plain digest r) = error_of r"
| "thrown (ScryptHash plain r) = error_of r"
| "thrown (VerifyAsync_malformed token sec r) = error_of r"
| "thrown (ScryptHash_malformed plain r) = error_of r"
| "thrown _ = None"

section \<open>A concrete deployment\<close>

text \<open>
  A small directory and toy implementations of the collaborators, on which the
  operations can be run. The world is the list of stored accounts: user name, email
  address and credential record.
\<close>

type_synonym directory = "(string \<times> string \<times> User) list"

definition demo_find :: "EmailAndUsernameDto \<Rightarrow> directory \<Rightarrow> (exn + User option) \<times> directory" where
  "demo_find q dir =
     (Inr (map_option (\<lambda>(n, e, u). u)
             (find (\<lambda>(n, e, u). e = EmailAndUsernameDto.email q \<or> n = EmailAndUsernameDto.username q) dir)),
      dir)"

definition demo_create :: "CreateUserDto \<Rightarrow> directory \<Rightarrow> (exn + string option) \<times> directory" where
  "demo_create dto dir =
     (Inr (Some (''id-'' @ CreateUserDto.username dto)),
      dir @ [(CreateUserDto.username dto, CreateUserDto.email dto,
              \<lparr>user_id = ''id-'' @ CreateUserDto.username dto,
               User.password = ''scrypt:'' @ CreateUserDto.password dto\<rparr>)])"

definition demo_exists :: "string \<Rightarrow> directory \<Rightarrow> (exn + bool) \<times> directory" where
  "demo_exists i dir = (Inr (list_ex (\<lambda>(n, e, u). user_id u = i) dir), dir)"

definition demo_update :: "UpdatePassword \<Rightarrow> directory \<Rightarrow> (exn + bool) \<times> directory" where
  "demo_update up dir =
     (Inr (list_ex (\<lambda>(n, e, u). user_id u = userId up) dir),
      map (\<lambda>(n, e, u).
             if user_id u = userId up
             then (n, e, u\<lparr>User.password := UpdatePassword.password up\<rparr>)
             else (n, e, u)) dir)"

definition demo_sign :: "JwtPayload \<Rightarrow> SignOptions \<Rightarrow> directory \<Rightarrow> (exn + string) \<times> directory" where
  "demo_sign payload opts dir =
     (case secret opts of
        None \<Rightarrow> Inl (Error ''secretOrPrivateKey must have a value'')
      | Some k \<Rightarrow> Inr (k @ ''.'' @ expiresIn opts @ ''.'' @ sub payload),
      dir)"

definition demo_verify :: "string \<Rightarrow> string option \<Rightarrow> directory \<Rightarrow> (exn + DecodedJwt) \<times> directory" where
  "demo_verify token sec dir =
     (case split_on CHR ''.'' token of
        [k, ttl, s] \<Rightarrow>
          (if sec \<noteq> Some k then Inl (JsonWebTokenError ''invalid signature'')
           else (case timespan_seconds ttl of
                   None \<Rightarrow> Inl (TokenExpiredError ''jwt expired'')
                 | Some n \<Rightarrow> Inr \<lparr>sub = s, iat = 0, exp = n\<rparr>))
      | _ \<Rightarrow> Inl (JsonWebTokenError ''jwt malformed''),
      dir)"

definition demo_env :: "directory env" where
  "demo_env =
     \<lparr>process_env = (\<lambda>v. case v of JWT_ACCESS_SECRET \<Rightarrow> Some ''A'' | JWT_REFRESH_SECRET \<Rightarrow> Some ''R''),
      find_user_by_email_or_username = demo_find,
      create_user = demo_create,
      is_userid_exist = demo_exists,
      update_password = demo_update,
      jwt_signAsync = demo_sign,
      jwt_verifyAsync = demo_verify,
      Scrypt_verifyPassword = (\<lambda>plain digest dir. (Inr (digest = ''scrypt:'' @ plain), dir)),
      Scrypt_hashPassword = (\<lambda>plain dir. (Inr (''scrypt:'' @ plain), dir)),
      jwt_verifyAsync_malformed =
        (\<lambda>token sec dir. (Inl (JsonWebTokenError ''jwt must be provided''), dir)),
      Scrypt_hashPassword_malformed =
        (\<lambda>plain dir. (Inl (TypeError ''The password argument must be of type string''), dir))\<rparr>"

definition demo_dir :: directory where
  "demo_dir = [(''alice'', ''alice@x.com'', \<lparr>user_id = ''u1'', User.password = ''scrypt:pw''\<rparr>)]"

text \<open>The same deployment with the directory unreachable, and with a directory that
  refuses the password write-back.\<close>

definition unreachable_env :: "directory env" where
  "unreachable_env =
     demo_env
       \<lparr>find_user_by_email_or_username := (\<lambda>q dir. (Inl (Error ''directory unreachable''), dir)),
        create_user := (\<lambda>dto dir. (Inl (Error ''directory unreachable''), dir)),
        is_userid_exist := (\<lambda>i dir. (Inl (Error ''directory unreachable''), dir)),
        update_password := (\<lambda>up dir. (Inl (Error ''directory unreachable''), dir))\<rparr>"

definition readonly_env :: "directory env" where
  "readonly_env = demo_env\<lparr>update_password := (\<lambda>up dir. (Inr False, dir))\<rparr>"

text \<open>The same deployment with a signer and a hasher that fail.\<close>

definition broken_env :: "directory env" where
  "broken_env =
     demo_env
       \<lparr>jwt_signAsync := (\<lambda>payload opts dir. (Inl (Error ''signing failed''), dir)),
        Scrypt_hashPassword := (\<lambda>plain dir. (Inl (Error ''hashing failed''), dir))\<rparr>"

section \<open>The gateway contract\<close>

text \<open>
  What a handler owes a request, given how the service method ended: exactly one of the
  two callbacks fires, after everything the service did; a returned value \<open>v\<close> is
  acknowledged and handed on as \<open>ret v\<close>, a thrown error is logged, negatively
  acknowledged, and replaced by the default \<open>dflt\<close>.
\<close>

definition settled_once ::
  "('a \<Rightarrow> 'b) \<Rightarrow> 'b \<Rightarrow> ('w, 'a) outcome \<Rightarrow> ('w, 'b) outcome \<Rightarrow> bool" where
  "settled_once ret dflt svc hdl =
     (length (filter settles (events hdl)) = 1 \<and>
      (case result svc of
         Inr v \<Rightarrow> events hdl = events svc @ [Ack] \<and> result hdl = Inr (ret v)
       | Inl e \<Rightarrow> events hdl = events svc @ [ConsoleLog e, Nack] \<and> result hdl = Inr dflt))"

text \<open>
  A failure \<open>e\<close> that escaped the service method and was caught at the gateway boundary:
  the handler logged that error, negatively acknowledged, did not acknowledge, and
  returned the default.
\<close>

definition caught_at_gateway ::
  "'b \<Rightarrow> ('w, 'a) outcome \<Rightarrow> ('w, 'b) outcome \<Rightarrow> exn \<Rightarrow> bool" where
  "caught_at_gateway dflt svc hdl e =
     (result svc = Inl e \<and>
      events hdl = events svc @ [ConsoleLog e, Nack] \<and>
      Ack \<notin> set (events hdl) \<and>
      result hdl = Inr dflt)"

section \<open>The password hasher of the specification\<close>

text \<open>
  Modelled from the spec: \<^verbatim>\<open>Scrypt.hashPassword\<close>, whose module (\<^verbatim>\<open>@app/shared/scrypt\<close>) is
  not among the sources. The specification describes \<^verbatim>\<open>hash(plaintext) -> digest\<close> as a
  salted one-way transform whose output encodes the salt together with the hash, and
  lists the operation as one that never fails. \<open>fresh_salt\<close> draws the salt from the
  world, \<open>derive\<close> is the key derivation.
\<close>

definition spec_Scrypt_hashPassword ::
  "('w \<Rightarrow> string \<times> 'w) \<Rightarrow> (string \<Rightarrow> string \<Rightarrow> string) \<Rightarrow>
     string \<Rightarrow> 'w \<Rightarrow> (exn + string) \<times> 'w" where
  "spec_Scrypt_hashPassword fresh_salt derive plaintext w =
     (case fresh_salt w of (salt, w') \<Rightarrow> (Inr (salt @ '':'' @ derive salt plaintext), w'))"

section \<open>Running a computation\<close>

lemma result_await:
  "result (await m k w) =
     (case result (m w) of Inl e \<Rightarrow> Inl e | Inr x \<Rightarrow> result (k x (world (m w))))"
  by (simp add: await_def Let_def split: sum.splits)

lemma events_await:
  "events (await m k w) =
     (case result (m w) of
        Inl e \<Rightarrow> events (m w)
      | Inr x \<Rightarrow> events (m w) @ events (k x (world (m w))))"
  by (simp add: await_def Let_def split: sum.splits)

lemma world_await:
  "world (await m k w) =
     (case result (m w) of Inl e \<Rightarrow> world (m w) | Inr x \<Rightarrow> world (k x (world (m w))))"
  by (simp add: await_def Let_def split: sum.splits)

lemma result_try_catch:
  "result (try_catch m h w) =
     (case result (m w) of Inl e \<Rightarrow> result (h e (world (m w))) | Inr x \<Rightarrow> Inr x)"
  by (simp add: try_catch_def Let_def split: sum.splits)

lemma events_try_catch:
  "events (try_catch m h w) =
     (case result (m w) of
        Inl e \<Rightarrow> events (m w) @ events (h e (world (m w)))
      | Inr x \<Rightarrow> events (m w))"
  by (simp add: try_catch_def Let_def split: sum.splits)

lemma world_try_catch:
  "world (try_catch m h w) =
     (case result (m w) of Inl e \<Rightarrow> world (h e (world (m w))) | Inr x \<Rightarrow> world (m w))"
  by (simp add: try_catch_def Let_def split: sum.splits)

lemma result_call: "result (call f ev w) = fst (f w)"
  by (simp add: call_def split: prod.splits)

lemma events_call: "events (call f ev w) = [ev (fst (f w))]"
  by (simp add: call_def split: prod.splits)

lemma world_call: "world (call f ev w) = snd (f w)"
  by (simp add: call_def split: prod.splits)

lemma run_resolve:
  "result (resolve x w) = Inr x" "events (resolve x w) = []" "world (resolve x w) = w"
  by (simp_all add: resolve_def)

lemma run_reject:
  "result (reject e w) = Inl e" "events (reject e w) = []" "world (reject e w) = w"
  by (simp_all add: reject_def)

lemma run_emit:
  "result (emit ev w) = Inr ()" "events (emit ev w) = [ev]" "world (emit ev w) = w"
  by (simp_all add: emit_def)

lemma run_Promise_all2:
  "result (Promise_all2 m1 m2 w) =
     (case result (m1 w) of
        Inl e \<Rightarrow> Inl e
      | Inr a \<Rightarrow> (case result (m2 (world (m1 w))) of Inl e \<Rightarrow> Inl e | Inr b \<Rightarrow> Inr (a, b)))"
  "events (Promise_all2 m1 m2 w) = events (m1 w) @ events (m2 (world (m1 w)))"
  "world (Promise_all2 m1 m2 w) = world (m2 (world (m1 w)))"
  by (simp_all add: Promise_all2_def Let_def)

lemmas run_simps =
  result_await events_await world_await result_try_catch events_try_catch world_try_catch
  result_call events_call world_call run_resolve run_reject run_emit run_Promise_all2

lemmas collaborator_defs =
  send_find_user_def send_create_user_def send_is_userid_exist_def send_update_password_def
  signAsync_def verifyAsync_def verifyPassword_def AuthService_hashPassword_def

section \<open>Helper facts\<close>

lemma falsy_iff: "falsy x = (x = None \<or> x = Some [])"
  by (cases x) simp_all

lemma split_on_first:
  "split_on c s =
     takeWhile (\<lambda>x. x \<noteq> c) s #
       (case dropWhile (\<lambda>x. x \<noteq> c) s of [] \<Rightarrow> [] | _ # rest \<Rightarrow> split_on c rest)"
  by (induction s) (auto split: list.splits)

lemma split_on_Bearer:
  "\<exists>rest. split_on CHR '' '' (''Bearer '' @ t) =
      ''Bearer'' # takeWhile (\<lambda>x. x \<noteq> CHR '' '') t # rest"
  by (subst split_on_first, simp, subst split_on_first, simp)

lemma takeWhile_absent: "c \<notin> set t \<Longrightarrow> takeWhile (\<lambda>x. x \<noteq> c) t = t"
  by (induction t) auto

lemma timespan_3m: "timespan_seconds ''3m'' = Some 180"
  by (simp add: timespan_seconds_def unit_seconds_def digit_value_def)

lemma timespan_7d: "timespan_seconds ''7d'' = Some 604800"
  by (simp add: timespan_seconds_def unit_seconds_def digit_value_def)

lemma demo_process_env:
  "process_env demo_env JWT_ACCESS_SECRET = Some ''A''"
  "process_env demo_env JWT_REFRESH_SECRET = Some ''R''"
  "process_env unreachable_env JWT_ACCESS_SECRET = Some ''A''"
  "process_env unreachable_env JWT_REFRESH_SECRET = Some ''R''"
  by (simp_all add: demo_env_def unreachable_env_def)

section \<open>Runs of the concrete deployment\<close>

lemma demo_login_result:
  "result (AuthService_login demo_env
             \<lparr>usernameOrEmail = ''alice'', LoginUserDto.password = ''pw''\<rparr> demo_dir) =
   Inr (Val \<lparr>accessToken = ''A.3m.u1'', refreshToken = ''R.7d.u1''\<rparr>)"
  by code_simp

lemma demo_login_events:
  "events (AuthService_login demo_env
             \<lparr>usernameOrEmail = ''alice'', LoginUserDto.password = ''pw''\<rparr> demo_dir) =
   [Send_find_user
      \<lparr>EmailAndUsernameDto.email = ''alice'', EmailAndUsernameDto.username = ''alice''\<rparr>
      (Inr (Some \<lparr>user_id = ''u1'', User.password = ''scrypt:pw''\<rparr>)),
    ScryptVerify ''pw'' ''scrypt:pw'' (Inr True),
    ScryptHash ''pw'' (Inr ''scrypt:pw''),
    Send_update_password \<lparr>userId = ''u1'', UpdatePassword.password = ''scrypt:pw''\<rparr> (Inr True),
    SignAsync \<lparr>sub = ''u1''\<rparr> \<lparr>expiresIn = ''3m'', secret = Some ''A''\<rparr> (Inr ''A.3m.u1''),
    SignAsync \<lparr>sub = ''u1''\<rparr> \<lparr>expiresIn = ''7d'', secret = Some ''R''\<rparr> (Inr ''R.7d.u1'')]"
  by code_simp

lemma demo_login_mismatch_events:
  "events (AuthService_login demo_env
             \<lparr>usernameOrEmail = ''alice'', LoginUserDto.password = ''bad''\<rparr> demo_dir) =
   [Send_find_user
      \<lparr>EmailAndUsernameDto.email = ''alice'', EmailAndUsernameDto.username = ''alice''\<rparr>
      (Inr (Some \<lparr>user_id = ''u1'', User.password = ''scrypt:pw''\<rparr>)),
    ScryptVerify ''bad'' ''scrypt:pw'' (Inr False)]"
  by code_simp

lemma readonly_login_events:
  "events (AuthService_login readonly_env
             \<lparr>usernameOrEmail = ''alice'', LoginUserDto.password = ''pw''\<rparr> demo_dir) =
   [Send_find_user
      \<lparr>EmailAndUsernameDto.email = ''alice'', EmailAndUsernameDto.username = ''alice''\<rparr>
      (Inr (Some \<lparr>user_id = ''u1'', User.password = ''scrypt:pw''\<rparr>)),
    ScryptVerify ''pw'' ''scrypt:pw'' (Inr True),
    ScryptHash ''pw'' (Inr ''scrypt:pw''),
    Send_update_password \<lparr>userId = ''u1'', UpdatePassword.password = ''scrypt:pw''\<rparr> (Inr False)]"
  by code_simp

section \<open>Login\<close>

text \<open>
  Claim C1. A login returns \<^verbatim>\<open>undefined\<close> exactly when the directory lookup by
  email-or-username returned no record, or the password did not verify against the
  stored digest of the record found, or it verified and the directory's update-password
  write-back returned false. A token pair is returned only when the lookup found a
  record, the password verified and the write-back returned true. (A login in which a
  collaborator throws returns nothing at all: its result is the thrown error.)
\<close>

theorem login_gate:
  "let out = AuthService_login env dto w;
       q = \<lparr>EmailAndUsernameDto.email = usernameOrEmail dto,
            EmailAndUsernameDto.username = usernameOrEmail dto\<rparr>;
       pw = LoginUserDto.password dto
   in
     ((result out = Inr Undefined) =
        (Send_find_user q (Inr None) \<in> set (events out) \<or>
         (\<exists>u. Send_find_user q (Inr (Some u)) \<in> set (events out) \<and>
              ScryptVerify pw (User.password u) (Inr False) \<in> set (events out)) \<or>
         (\<exists>(u::User) d.
              ScryptVerify pw (User.password u) (Inr True) \<in> set (events out) \<and>
              Send_update_password \<lparr>userId = user_id u, UpdatePassword.password = d\<rparr> (Inr False)
                \<in> set (events out)))) \<and>
     (\<forall>jwt. result out = Inr (Val jwt) \<longrightarrow>
        (\<exists>u d. Send_find_user q (Inr (Some u)) \<in> set (events out) \<and>
               ScryptVerify pw (User.password u) (Inr True) \<in> set (events out) \<and>
               Send_update_password \<lparr>userId = user_id u, UpdatePassword.password = d\<rparr> (Inr True)
                 \<in> set (events out))) \<and>
     result out \<noteq> Inr Null"
  unfolding Let_def
  by (auto simp add: AuthService_login_def validateUser_def generateJWT_def run_simps
      collaborator_defs split: sum.splits option.splits)

theorem login_gate_witness:
  "result (AuthService_login demo_env
             \<lparr>usernameOrEmail = ''alice'', LoginUserDto.password = ''pw''\<rparr> demo_dir) =
     Inr (Val \<lparr>accessToken = ''A.3m.u1'', refreshToken = ''R.7d.u1''\<rparr>) \<and>
   result (AuthService_login demo_env
             \<lparr>usernameOrEmail = ''alice'', LoginUserDto.password = ''bad''\<rparr> demo_dir) =
     Inr Undefined \<and>
   result (AuthService_login readonly_env
             \<lparr>usernameOrEmail = ''alice'', LoginUserDto.password = ''pw''\<rparr> demo_dir) =
     Inr Undefined \<and>
   (\<exists>u d.
      Send_find_user
        \<lparr>EmailAndUsernameDto.email = ''alice'', EmailAndUsernameDto.username = ''alice''\<rparr>
        (Inr (Some u))
        \<in> set (events (AuthService_login demo_env
                   \<lparr>usernameOrEmail = ''alice'', LoginUserDto.password = ''pw''\<rparr> demo_dir)) \<and>
      ScryptVerify ''pw'' (User.password u) (Inr True)
        \<in> set (events (AuthService_login demo_env
                   \<lparr>usernameOrEmail = ''alice'', LoginUserDto.password = ''pw''\<rparr> demo_dir)) \<and>
      Send_update_password \<lparr>userId = user_id u, UpdatePassword.password = d\<rparr> (Inr True)
        \<in> set (events (AuthService_login demo_env
                   \<lparr>usernameOrEmail = ''alice'', LoginUserDto.password = ''pw''\<rparr> demo_dir)))"
proof -
  have granted:
    "\<exists>u d.
      Send_find_user
        \<lparr>EmailAndUsernameDto.email = ''alice'', EmailAndUsernameDto.username = ''alice''\<rparr>
        (Inr (Some u))
        \<in> set (events (AuthService_login demo_env
                   \<lparr>usernameOrEmail = ''alice'', LoginUserDto.password = ''pw''\<rparr> demo_dir)) \<and>
      ScryptVerify ''pw'' (User.password u) (Inr True)
        \<in> set (events (AuthService_login demo_env
                   \<lparr>usernameOrEmail = ''alice'', LoginUserDto.password = ''pw''\<rparr> demo_dir)) \<and>
      Send_update_password \<lparr>userId = user_id u, UpdatePassword.password = d\<rparr> (Inr True)
        \<in> set (events (AuthService_login demo_env
                   \<lparr>usernameOrEmail = ''alice'', LoginUserDto.password = ''pw''\<rparr> demo_dir))"
    using login_gate [of demo_env "\<lparr>usernameOrEmail = ''alice'', LoginUserDto.password = ''pw''\<rparr>"
        demo_dir, unfolded Let_def, THEN conjunct2, THEN conjunct1, rule_format,
        OF demo_login_result]
    by simp
  have stored: "\<exists>u::User. User.password u = ''scrypt:pw'' \<and> user_id u = ''u1''"
    by (rule exI [of _ "\<lparr>user_id = ''u1'', User.password = ''scrypt:pw''\<rparr>"]) simp
  show ?thesis
    using stored granted
      login_gate [of demo_env "\<lparr>usernameOrEmail = ''alice'', LoginUserDto.password = ''bad''\<rparr>" demo_dir]
      login_gate [of readonly_env "\<lparr>usernameOrEmail = ''alice'', LoginUserDto.password = ''pw''\<rparr>" demo_dir]
      login_gate [of demo_env "\<lparr>usernameOrEmail = ''alice'', LoginUserDto.password = ''pw''\<rparr>" demo_dir]
    by (simp add: Let_def demo_login_result demo_login_events demo_login_mismatch_events
        readonly_login_events)
qed

section \<open>Refresh\<close>

lemma demo_refresh_facts:
  "jwt_verifyAsync demo_env ''R.7d.u1'' (Some ''R'') demo_dir =
     (Inr \<lparr>sub = ''u1'', iat = 0, exp = 604800\<rparr>, demo_dir)"
  "jwt_verifyAsync demo_env ''R.x.u1'' (Some ''R'') demo_dir =
     (Inl (TokenExpiredError ''jwt expired''), demo_dir)"
  "jwt_signAsync demo_env \<lparr>sub = ''u1''\<rparr> \<lparr>expiresIn = ''3m'', secret = Some ''A''\<rparr> demo_dir =
     (Inr ''A.3m.u1'', demo_dir)"
  "jwt_signAsync demo_env \<lparr>sub = ''u1''\<rparr> \<lparr>expiresIn = ''7d'', secret = Some ''R''\<rparr> demo_dir =
     (Inr ''R.7d.u1'', demo_dir)"
  by (simp_all add: demo_env_def demo_verify_def demo_sign_def timespan_7d
      timespan_seconds_def unit_seconds_def digit_value_def)

text \<open>
  Claim C2. Every input either lacks the prefix \<^verbatim>\<open>"Bearer "\<close> or is the prefix followed
  by some \<open>t\<close>. The token refresh submits to \<^verbatim>\<open>verifyAsync\<close>, under the refresh secret
  \<open>sec\<close>, is \<open>t\<close> up to its first space, which is \<open>t\<close> itself for a compact token (no
  space). (1) When \<^verbatim>\<open>verifyAsync\<close> accepts it with claim \<open>p\<close>, refresh signs the payload
  \<^verbatim>\<open>{sub: p.sub}\<close> and nothing else of \<open>p\<close>, and returns the two signed tokens (given
  that the two signing calls return). (2) On an input without the prefix it returns
  \<^verbatim>\<open>undefined\<close> and calls nothing. (3) When \<^verbatim>\<open>verifyAsync\<close> throws (bad signature,
  expired) it logs the error and returns \<^verbatim>\<open>undefined\<close>.
\<close>

theorem refresh_contract:
  "let sec = process_env env JWT_REFRESH_SECRET;
       acc = process_env env JWT_ACCESS_SECRET;
       token = takeWhile (\<lambda>c. c \<noteq> CHR '' '') t
   in
     (CHR '' '' \<notin> set t \<longrightarrow> token = t) \<and>
     (\<forall>p a r w1 w2 w3.
        jwt_verifyAsync env token sec w = (Inr p, w1) \<and>
        jwt_signAsync env \<lparr>sub = sub p\<rparr> \<lparr>expiresIn = ''3m'', secret = acc\<rparr> w1 = (Inr a, w2) \<and>
        jwt_signAsync env \<lparr>sub = sub p\<rparr> \<lparr>expiresIn = ''7d'', secret = sec\<rparr> w2 = (Inr r, w3) \<longrightarrow>
        AuthService_refresh env (''Bearer '' @ t) w =
          \<lparr>result = Inr (Val \<lparr>accessToken = a, refreshToken = r\<rparr>), world = w3,
           events =
             [VerifyAsync token sec (Inr p),
              SignAsync \<lparr>sub = sub p\<rparr> \<lparr>expiresIn = ''3m'', secret = acc\<rparr> (Inr a),
              SignAsync \<lparr>sub = sub p\<rparr> \<lparr>expiresIn = ''7d'', secret = sec\<rparr> (Inr r)]\<rparr>) \<and>
     (\<forall>s. \<not> prefix ''Bearer '' s \<longrightarrow>
        AuthService_refresh env s w = \<lparr>result = Inr Undefined, world = w, events = []\<rparr>) \<and>
     (\<forall>ex w1.
        jwt_verifyAsync env token sec w = (Inl ex, w1) \<longrightarrow>
        AuthService_refresh env (''Bearer '' @ t) w =
          \<lparr>result = Inr Undefined, world = w1,
           events = [VerifyAsync token sec (Inl ex), ConsoleLog ex]\<rparr>)"
proof -
  obtain rest where split:
    "split_on CHR '' '' (''Bearer '' @ t) =
       ''Bearer'' # takeWhile (\<lambda>c. c \<noteq> CHR '' '') t # rest"
    using split_on_Bearer [of t] by blast
  have accepted:
    "AuthService_refresh env (''Bearer '' @ t) w =
       \<lparr>result = Inr (Val \<lparr>accessToken = a, refreshToken = r\<rparr>), world = w3,
        events =
          [VerifyAsync (takeWhile (\<lambda>c. c \<noteq> CHR '' '') t)
             (process_env env JWT_REFRESH_SECRET) (Inr p),
           SignAsync \<lparr>sub = sub p\<rparr>
             \<lparr>expiresIn = ''3m'', secret = process_env env JWT_ACCESS_SECRET\<rparr> (Inr a),
           SignAsync \<lparr>sub = sub p\<rparr>
             \<lparr>expiresIn = ''7d'', secret = process_env env JWT_REFRESH_SECRET\<rparr> (Inr r)]\<rparr>"
    if "jwt_verifyAsync env (takeWhile (\<lambda>c. c \<noteq> CHR '' '') t)
          (process_env env JWT_REFRESH_SECRET) w = (Inr p, w1)"
      and "jwt_signAsync env \<lparr>sub = sub p\<rparr>
             \<lparr>expiresIn = ''3m'', secret = process_env env JWT_ACCESS_SECRET\<rparr> w1 = (Inr a, w2)"
      and "jwt_signAsync env \<lparr>sub = sub p\<rparr>
             \<lparr>expiresIn = ''7d'', secret = process_env env JWT_REFRESH_SECRET\<rparr> w2 = (Inr r, w3)"
    for p a r w1 w2 w3
    using that split
    by (simp add: AuthService_refresh_def generateJWT_def await_def try_catch_def
        Promise_all2_def call_def resolve_def verifyAsync_def signAsync_def Let_def)
  have no_prefix:
    "AuthService_refresh env s w = \<lparr>result = Inr Undefined, world = w, events = []\<rparr>"
    if "\<not> prefix ''Bearer '' s" for s
    using that
    by (simp add: AuthService_refresh_def await_def try_catch_def resolve_def Let_def)
  have refused:
    "AuthService_refresh env (''Bearer '' @ t) w =
       \<lparr>result = Inr Undefined, world = w1,
        events =
          [VerifyAsync (takeWhile (\<lambda>c. c \<noteq> CHR '' '') t)
             (process_env env JWT_REFRESH_SECRET) (Inl ex),
           ConsoleLog ex]\<rparr>"
    if "jwt_verifyAsync env (takeWhile (\<lambda>c. c \<noteq> CHR '' '') t)
          (process_env env JWT_REFRESH_SECRET) w = (Inl ex, w1)"
    for ex w1
    using that split
    by (simp add: AuthService_refresh_def await_def try_catch_def emit_def
        call_def resolve_def verifyAsync_def Let_def)
  from accepted no_prefix refused show ?thesis
    unfolding Let_def by (simp add: takeWhile_absent)
qed

theorem refresh_contract_witness:
  "AuthService_refresh demo_env ''Bearer R.7d.u1'' demo_dir =
     \<lparr>result = Inr (Val \<lparr>accessToken = ''A.3m.u1'', refreshToken = ''R.7d.u1''\<rparr>),
      world = demo_dir,
      events =
        [VerifyAsync ''R.7d.u1'' (Some ''R'') (Inr \<lparr>sub = ''u1'', iat = 0, exp = 604800\<rparr>),
         SignAsync \<lparr>sub = ''u1''\<rparr> \<lparr>expiresIn = ''3m'', secret = Some ''A''\<rparr> (Inr ''A.3m.u1''),
         SignAsync \<lparr>sub = ''u1''\<rparr> \<lparr>expiresIn = ''7d'', secret = Some ''R''\<rparr> (Inr ''R.7d.u1'')]\<rparr> \<and>
   AuthService_refresh demo_env ''R.7d.u1'' demo_dir =
     \<lparr>result = Inr Undefined, world = demo_dir, events = []\<rparr> \<and>
   AuthService_refresh demo_env ''Bearer R.x.u1'' demo_dir =
     \<lparr>result = Inr Undefined, world = demo_dir,
      events =
        [VerifyAsync ''R.x.u1'' (Some ''R'') (Inl (TokenExpiredError ''jwt expired'')),
         ConsoleLog (TokenExpiredError ''jwt expired'')]\<rparr>"
proof -
  note valid = refresh_contract [of demo_env "''R.7d.u1''" demo_dir, unfolded Let_def]
  note expired = refresh_contract [of demo_env "''R.x.u1''" demo_dir, unfolded Let_def]
  have accepted:
    "AuthService_refresh demo_env (''Bearer '' @ ''R.7d.u1'') demo_dir =
       \<lparr>result = Inr (Val \<lparr>accessToken = ''A.3m.u1'', refreshToken = ''R.7d.u1''\<rparr>),
        world = demo_dir,
        events =
          [VerifyAsync (takeWhile (\<lambda>c. c \<noteq> CHR '' '') ''R.7d.u1'')
             (process_env demo_env JWT_REFRESH_SECRET)
             (Inr \<lparr>sub = ''u1'', iat = 0, exp = 604800\<rparr>),
           SignAsync \<lparr>sub = sub \<lparr>sub = ''u1'', iat = 0, exp = 604800\<rparr>\<rparr>
             \<lparr>expiresIn = ''3m'', secret = process_env demo_env JWT_ACCESS_SECRET\<rparr> (Inr ''A.3m.u1''),
           SignAsync \<lparr>sub = sub \<lparr>sub = ''u1'', iat = 0, exp = 604800\<rparr>\<rparr>
             \<lparr>expiresIn = ''7d'', secret = process_env demo_env JWT_REFRESH_SECRET\<rparr> (Inr ''R.7d.u1'')]\<rparr>"
    by (rule valid [THEN conjunct2, THEN conjunct1, rule_format,
          where ?w1.0 = demo_dir and ?w2.0 = demo_dir])
      (simp add: demo_refresh_facts demo_process_env)
  have no_prefix:
    "AuthService_refresh demo_env ''R.7d.u1'' demo_dir =
       \<lparr>result = Inr Undefined, world = demo_dir, events = []\<rparr>"
    by (rule valid [THEN conjunct2, THEN conjunct2, THEN conjunct1, rule_format]) simp
  have refused:
    "AuthService_refresh demo_env (''Bearer '' @ ''R.x.u1'') demo_dir =
       \<lparr>result = Inr Undefined, world = demo_dir,
        events =
          [VerifyAsync (takeWhile (\<lambda>c. c \<noteq> CHR '' '') ''R.x.u1'')
             (process_env demo_env JWT_REFRESH_SECRET)
             (Inl (TokenExpiredError ''jwt expired'')),
           ConsoleLog (TokenExpiredError ''jwt expired'')]\<rparr>"
    by (rule expired [THEN conjunct2, THEN conjunct2, THEN conjunct2, rule_format])
      (simp add: demo_refresh_facts demo_process_env)
  from accepted no_prefix refused show ?thesis
    by (simp add: demo_process_env)
qed

section \<open>Registration\<close>

lemma demo_register_facts:
  "find_user_by_email_or_username demo_env
     \<lparr>EmailAndUsernameDto.email = ''a@x.com'', EmailAndUsernameDto.username = ''a''\<rparr> [] =
     (Inr None, [])"
  "create_user demo_env
     \<lparr>CreateUserDto.username = ''a'', CreateUserDto.email = ''a@x.com'',
      CreateUserDto.password = ''p''\<rparr> [] =
     (Inr (Some ''id-a''),
      [(''a'', ''a@x.com'', \<lparr>user_id = ''id-a'', User.password = ''scrypt:p''\<rparr>)])"
  "find_user_by_email_or_username demo_env
     \<lparr>EmailAndUsernameDto.email = ''a@x.com'', EmailAndUsernameDto.username = ''a''\<rparr>
     [(''a'', ''a@x.com'', \<lparr>user_id = ''id-a'', User.password = ''scrypt:p''\<rparr>)] =
     (Inr (Some \<lparr>user_id = ''id-a'', User.password = ''scrypt:p''\<rparr>),
      [(''a'', ''a@x.com'', \<lparr>user_id = ''id-a'', User.password = ''scrypt:p''\<rparr>)])"
  by (simp_all add: demo_env_def demo_find_def demo_create_def)

lemma demo_register_world:
  "world (AuthService_register demo_env
            \<lparr>CreateUserDto.username = ''a'', CreateUserDto.email = ''a@x.com'',
             CreateUserDto.password = ''p''\<rparr> []) =
   [(''a'', ''a@x.com'', \<lparr>user_id = ''id-a'', User.password = ''scrypt:p''\<rparr>)]"
  by (simp add: AuthService_register_def run_simps collaborator_defs demo_register_facts)

text \<open>
  Claim C3. Registration returns the error value \<^verbatim>\<open>{statusCode: 2002, error: 'User already exists'}\<close>
  exactly when the directory lookup by the request's email and user name returns a
  record; it returns \<^verbatim>\<open>{statusCode: 2003, error: 'User creation failed'}\<close> exactly when the
  lookup returns null and the directory create returns no usable id (null, or the empty
  string, which \<^verbatim>\<open>!userId\<close> also rejects); and it returns \<^verbatim>\<open>true\<close> exactly when the lookup
  returns null and the create returns a non-null, non-empty id.
\<close>

theorem register_outcomes:
  "let out = AuthService_register env dto w;
       q = \<lparr>EmailAndUsernameDto.email = CreateUserDto.email dto,
            EmailAndUsernameDto.username = CreateUserDto.username dto\<rparr>;
       found = fst (find_user_by_email_or_username env q w);
       created = fst (create_user env dto (snd (find_user_by_email_or_username env q w)))
   in
     ((result out = Inr (Failure \<lparr>statusCode = 2002, error = ''User already exists''\<rparr>)) =
        (\<exists>u. found = Inr (Some u))) \<and>
     ((result out = Inr (Failure \<lparr>statusCode = 2003, error = ''User creation failed''\<rparr>)) =
        (found = Inr None \<and> (created = Inr None \<or> created = Inr (Some '''')))) \<and>
     ((result out = Inr (Boolean True)) =
        (found = Inr None \<and> (\<exists>i. i \<noteq> '''' \<and> created = Inr (Some i))))"
  unfolding Let_def
  by (auto simp add: AuthService_register_def run_simps collaborator_defs falsy_iff
      split: sum.splits option.splits)

theorem register_outcomes_witness:
  "result (AuthService_register demo_env
             \<lparr>CreateUserDto.username = ''a'', CreateUserDto.email = ''a@x.com'',
              CreateUserDto.password = ''p''\<rparr> []) =
     Inr (Boolean True) \<and>
   result (AuthService_register demo_env
             \<lparr>CreateUserDto.username = ''a'', CreateUserDto.email = ''a@x.com'',
              CreateUserDto.password = ''p''\<rparr>
             (world (AuthService_register demo_env
                       \<lparr>CreateUserDto.username = ''a'', CreateUserDto.email = ''a@x.com'',
                        CreateUserDto.password = ''p''\<rparr> []))) =
     Inr (Failure \<lparr>statusCode = 2002, error = ''User already exists''\<rparr>)"
  using
    register_outcomes [of demo_env
      "\<lparr>CreateUserDto.username = ''a'', CreateUserDto.email = ''a@x.com'',
        CreateUserDto.password = ''p''\<rparr>" "[]"]
    register_outcomes [of demo_env
      "\<lparr>CreateUserDto.username = ''a'', CreateUserDto.email = ''a@x.com'',
        CreateUserDto.password = ''p''\<rparr>"
      "[(''a'', ''a@x.com'', \<lparr>user_id = ''id-a'', User.password = ''scrypt:p''\<rparr>)]"]
  by (simp add: Let_def demo_register_facts demo_register_world)

section \<open>Token validation\<close>

lemma demo_verify_facts:
  "jwt_verifyAsync demo_env ''A.3m.u1'' (Some ''A'') dir =
     (Inr \<lparr>sub = ''u1'', iat = 0, exp = 180\<rparr>, dir)"
  "jwt_verifyAsync demo_env ''R.7d.u1'' (Some ''A'') dir =
     (Inl (JsonWebTokenError ''invalid signature''), dir)"
  by (simp_all add: demo_env_def demo_verify_def timespan_3m)

lemma demo_exists_facts:
  "is_userid_exist demo_env ''u1'' demo_dir = (Inr True, demo_dir)"
  "is_userid_exist demo_env ''u1'' [] = (Inr False, [])"
  by (simp_all add: demo_env_def demo_exists_def demo_dir_def)

text \<open>
  Claim C4. \<^verbatim>\<open>validateJwt\<close> returns the claim \<open>p\<close> exactly when \<^verbatim>\<open>verifyAsync\<close> under the
  access secret returns \<open>p\<close> for the token and the directory then answers true to
  \<^verbatim>\<open>is-userid-exist\<close> for \<open>p\<close>'s subject. It returns \<^verbatim>\<open>undefined\<close> when verification throws
  (bad signature, expired) and when the directory answers false; it never throws and
  never returns anything else.
\<close>

theorem validateJwt_outcomes:
  "let out = AuthService_validateJwt env jwt w;
       sec = process_env env JWT_ACCESS_SECRET;
       verified = fst (jwt_verifyAsync env jwt sec w);
       w1 = snd (jwt_verifyAsync env jwt sec w)
   in
     (\<forall>p. (result out = Inr (Val p)) =
            (verified = Inr p \<and> fst (is_userid_exist env (sub p) w1) = Inr True)) \<and>
     ((\<exists>ex. verified = Inl ex) \<longrightarrow> result out = Inr Undefined) \<and>
     (\<forall>p. verified = Inr p \<and> fst (is_userid_exist env (sub p) w1) = Inr False \<longrightarrow>
            result out = Inr Undefined) \<and>
     (result out = Inr Undefined \<or> (\<exists>p. result out = Inr (Val p)))"
  unfolding Let_def
  by (auto simp add: AuthService_validateJwt_def run_simps collaborator_defs
      split: sum.splits option.splits)

theorem validateJwt_outcomes_witness:
  "result (AuthService_validateJwt demo_env ''A.3m.u1'' demo_dir) =
     Inr (Val \<lparr>sub = ''u1'', iat = 0, exp = 180\<rparr>) \<and>
   result (AuthService_validateJwt demo_env ''R.7d.u1'' demo_dir) = Inr Undefined \<and>
   result (AuthService_validateJwt demo_env ''A.3m.u1'' []) = Inr Undefined"
  using
    validateJwt_outcomes [of demo_env "''A.3m.u1''" demo_dir]
    validateJwt_outcomes [of demo_env "''R.7d.u1''" demo_dir]
    validateJwt_outcomes [of demo_env "''A.3m.u1''" "[]"]
  by (simp add: Let_def demo_process_env demo_verify_facts demo_exists_facts)

section \<open>The handlers\<close>

lemma handler_settled_once:
  assumes "filter settles (events (svc w)) = []"
  shows "settled_once ret dflt (svc w)
           (try_catch
              (await svc (\<lambda>res. await (emit Ack) (\<lambda>_. resolve (ret res))))
              (\<lambda>err. await (emit (ConsoleLog err)) (\<lambda>_. await (emit Nack) (\<lambda>_. resolve dflt))) w)"
  using assms by (simp add: settled_once_def run_simps split: sum.splits)

lemma no_settle_generateJWT: "filter settles (events (generateJWT env p w)) = []"
  by (simp add: generateJWT_def run_simps collaborator_defs split: sum.splits)

lemma no_settle_validateUser: "filter settles (events (validateUser env e p w)) = []"
  by (simp add: validateUser_def run_simps collaborator_defs split: sum.splits option.splits)

lemma no_settle_register: "filter settles (events (AuthService_register env d w)) = []"
  by (simp add: AuthService_register_def run_simps collaborator_defs
      split: sum.splits option.splits)

lemma no_settle_login: "filter settles (events (AuthService_login env d w)) = []"
  by (simp add: AuthService_login_def run_simps no_settle_generateJWT no_settle_validateUser
      split: sum.splits option.splits)

lemma no_settle_refresh: "filter settles (events (AuthService_refresh env t w)) = []"
  by (simp add: AuthService_refresh_def run_simps no_settle_generateJWT collaborator_defs
      split: sum.splits option.splits list.splits)

lemma no_settle_hashPassword: "filter settles (events (AuthService_hashPassword env p w)) = []"
  by (simp add: run_simps collaborator_defs)

lemma no_settle_validateJwt: "filter settles (events (AuthService_validateJwt env j w)) = []"
  by (simp add: AuthService_validateJwt_def run_simps collaborator_defs
      split: sum.splits option.splits)

lemma unreachable_runs:
  "events (AuthController_register unreachable_env
             \<lparr>CreateUserDto.username = ''a'', CreateUserDto.email = ''a@x.com'',
              CreateUserDto.password = ''p''\<rparr> demo_dir) =
     [Send_find_user
        \<lparr>EmailAndUsernameDto.email = ''a@x.com'', EmailAndUsernameDto.username = ''a''\<rparr>
        (Inl (Error ''directory unreachable'')),
      ConsoleLog (Error ''directory unreachable''), Nack]"
  "events (AuthController_login unreachable_env
             \<lparr>usernameOrEmail = ''alice'', LoginUserDto.password = ''pw''\<rparr> demo_dir) =
     [Send_find_user
        \<lparr>EmailAndUsernameDto.email = ''alice'', EmailAndUsernameDto.username = ''alice''\<rparr>
        (Inl (Error ''directory unreachable'')),
      ConsoleLog (Error ''directory unreachable''), Nack]"
  "AuthController_validate unreachable_env ''A.3m.u1'' demo_dir =
     \<lparr>result = Inr Undefined, world = demo_dir,
      events =
        [VerifyAsync ''A.3m.u1'' (Some ''A'') (Inr \<lparr>sub = ''u1'', iat = 0, exp = 180\<rparr>),
         Send_is_userid_exist ''u1'' (Inl (Error ''directory unreachable'')),
         Ack]\<rparr>"
  by (simp_all add: AuthController_register_def AuthService_register_def
      AuthController_login_def AuthService_login_def validateUser_def
      AuthController_validate_def AuthService_validateJwt_def
      await_def try_catch_def call_def emit_def resolve_def Let_def collaborator_defs
      unreachable_env_def demo_env_def demo_verify_def timespan_3m)

lemma broken_runs:
  "events (AuthController_hashPassword broken_env ''pw'' demo_dir) =
     [ScryptHash ''pw'' (Inl (Error ''hashing failed'')),
      ConsoleLog (Error ''hashing failed''), Nack]"
  "events (AuthController_refresh broken_env ''Bearer R.7d.u1'' demo_dir) =
     [VerifyAsync ''R.7d.u1'' (Some ''R'') (Inr \<lparr>sub = ''u1'', iat = 0, exp = 604800\<rparr>),
      SignAsync \<lparr>sub = ''u1''\<rparr> \<lparr>expiresIn = ''3m'', secret = Some ''A''\<rparr>
        (Inl (Error ''signing failed'')),
      SignAsync \<lparr>sub = ''u1''\<rparr> \<lparr>expiresIn = ''7d'', secret = Some ''R''\<rparr>
        (Inl (Error ''signing failed'')),
      ConsoleLog (Error ''signing failed''), Nack]"
  "events (AuthController_refresh demo_env ''Bearer R.x.u1'' demo_dir) =
     [VerifyAsync ''R.x.u1'' (Some ''R'') (Inl (TokenExpiredError ''jwt expired'')),
      ConsoleLog (TokenExpiredError ''jwt expired''), Ack]"
  by (simp_all add: AuthController_hashPassword_def AuthController_refresh_def
      AuthService_refresh_def generateJWT_def
      await_def try_catch_def call_def emit_def resolve_def Promise_all2_def Let_def
      collaborator_defs broken_env_def demo_env_def demo_verify_def timespan_7d
      timespan_seconds_def unit_seconds_def digit_value_def)

text \<open>
  Claim C5 as stated fails on the validate handler. The directory is unreachable while a
  valid access token is validated: the handler
  acknowledges the request and returns \<^verbatim>\<open>undefined\<close>; \<^verbatim>\<open>nack()\<close> is not called and the
  handler's default \<^verbatim>\<open>null\<close> is not returned.
\<close>

theorem validate_unreachable_is_acked:
  "AuthController_validate unreachable_env ''A.3m.u1'' demo_dir =
     \<lparr>result = Inr Undefined, world = demo_dir,
      events =
        [VerifyAsync ''A.3m.u1'' (Some ''A'') (Inr \<lparr>sub = ''u1'', iat = 0, exp = 180\<rparr>),
         Send_is_userid_exist ''u1'' (Inl (Error ''directory unreachable'')),
         Ack]\<rparr> \<and>
   threw (Send_is_userid_exist ''u1'' (Inl (Error ''directory unreachable'')))"
  by (simp add: unreachable_runs)

lemma raw_Val:
  "AuthController_register_raw env (Val r) = AuthController_register env r"
  "AuthController_login_raw env (Val l) = AuthController_login env l"
  "AuthController_refresh_raw env (Val t) = AuthController_refresh env t"
  "AuthController_hashPassword_raw env (Val p) = AuthController_hashPassword env p"
  "AuthController_validate_raw env (Val j) = AuthController_validate env j"
  by (simp_all add: AuthController_register_raw_def AuthController_register_def
      AuthController_login_raw_def AuthController_login_def
      AuthController_refresh_raw_def AuthController_refresh_def
      AuthController_hashPassword_raw_def AuthController_hashPassword_def
      AuthController_validate_raw_def AuthController_validate_def
      AuthService_register_raw_def AuthService_login_raw_def AuthService_refresh_raw_def
      AuthService_hashPassword_raw_def AuthService_validateJwt_raw_def)

lemma register_failures:
  "malformed r \<or> (\<exists>ev \<in> set (events (AuthController_register_raw env r w)). threw ev) \<longrightarrow>
     (\<exists>e. caught_at_gateway (Boolean False)
             (AuthService_register_raw env r w) (AuthController_register_raw env r w) e \<and>
          (malformed r \<and> e = cannot_read r \<or>
           (\<exists>ev \<in> set (events (AuthService_register_raw env r w)). thrown ev = Some e)))"
  by (cases r)
    (auto simp add: caught_at_gateway_def AuthController_register_raw_def
      AuthService_register_raw_def AuthService_register_def run_simps collaborator_defs
      split: sum.splits option.splits)

lemma login_failures:
  "malformed l \<or> (\<exists>ev \<in> set (events (AuthController_login_raw env l w)). threw ev) \<longrightarrow>
     (\<exists>e. caught_at_gateway Null
             (AuthService_login_raw env l w) (AuthController_login_raw env l w) e \<and>
          (malformed l \<and> e = cannot_read l \<or>
           (\<exists>ev \<in> set (events (AuthService_login_raw env l w)). thrown ev = Some e)))"
  by (cases l)
    (auto simp add: caught_at_gateway_def AuthController_login_raw_def
      AuthService_login_raw_def AuthService_login_def validateUser_def generateJWT_def
      run_simps collaborator_defs split: sum.splits option.splits)

lemma hashPassword_failures:
  "(\<exists>ev \<in> set (events (AuthController_hashPassword_raw env p w)). threw ev) \<longrightarrow>
     (\<exists>e. caught_at_gateway Null
             (AuthService_hashPassword_raw env p w) (AuthController_hashPassword_raw env p w) e \<and>
          (\<exists>ev \<in> set (events (AuthService_hashPassword_raw env p w)). thrown ev = Some e))"
  by (cases p)
    (auto simp add: caught_at_gateway_def AuthController_hashPassword_raw_def
      AuthService_hashPassword_raw_def run_simps collaborator_defs split: sum.splits)

lemma refresh_sign_failures:
  "(\<exists>ev \<in> set (events (AuthController_refresh_raw env t w)). is_sign ev \<and> threw ev) \<longrightarrow>
     (\<exists>e. caught_at_gateway Null
             (AuthService_refresh_raw env t w) (AuthController_refresh_raw env t w) e \<and>
          (\<exists>ev \<in> set (events (AuthService_refresh_raw env t w)). is_sign ev \<and> thrown ev = Some e))"
  by (cases t)
    (auto simp add: caught_at_gateway_def AuthController_refresh_raw_def
      AuthService_refresh_raw_def AuthService_refresh_def generateJWT_def
      run_simps collaborator_defs split: sum.splits option.splits list.splits)

lemma refresh_inner_failures:
  "malformed t \<or>
   (\<exists>ev \<in> set (events (AuthController_refresh_raw env t w)). \<not> is_sign ev \<and> threw ev) \<longrightarrow>
     (\<exists>e. (malformed t \<and> e = cannot_read t \<and>
             events (AuthService_refresh_raw env t w) = [ConsoleLog e] \<or>
           (\<exists>token sec.
              events (AuthService_refresh_raw env t w) =
                [VerifyAsync token sec (Inl e), ConsoleLog e]))) \<and>
     result (AuthService_refresh_raw env t w) = Inr Undefined \<and>
     events (AuthController_refresh_raw env t w) =
       events (AuthService_refresh_raw env t w) @ [Ack] \<and>
     Nack \<notin> set (events (AuthController_refresh_raw env t w)) \<and>
     result (AuthController_refresh_raw env t w) = Inr Undefined"
  by (cases t)
    (auto simp add: AuthController_refresh_raw_def
      AuthService_refresh_raw_def AuthService_refresh_def generateJWT_def
      run_simps collaborator_defs split: sum.splits option.splits list.splits)

lemma validate_failures:
  "(\<forall>e. result (AuthService_validateJwt_raw env j w) \<noteq> Inl e) \<and>
   events (AuthController_validate_raw env j w) =
     events (AuthService_validateJwt_raw env j w) @ [Ack] \<and>
   Nack \<notin> set (events (AuthController_validate_raw env j w)) \<and>
   (\<forall>e. ConsoleLog e \<notin> set (events (AuthController_validate_raw env j w))) \<and>
   ((\<exists>ev \<in> set (events (AuthController_validate_raw env j w)). threw ev) \<longrightarrow>
      result (AuthController_validate_raw env j w) = Inr Undefined)"
  by (cases j)
    (auto simp add: AuthController_validate_raw_def
      AuthService_validateJwt_raw_def AuthService_validateJwt_def
      run_simps collaborator_defs split: sum.splits option.splits)

lemma handlers_never_throw:
  "result (AuthController_register_raw env r w) \<noteq> Inl e \<and>
   result (AuthController_login_raw env l w) \<noteq> Inl e \<and>
   result (AuthController_hashPassword_raw env p w) \<noteq> Inl e \<and>
   result (AuthController_refresh_raw env t w) \<noteq> Inl e \<and>
   result (AuthController_validate_raw env j w) \<noteq> Inl e"
  by (simp add: AuthController_register_raw_def AuthController_login_raw_def
      AuthController_hashPassword_raw_def AuthController_refresh_raw_def
      AuthController_validate_raw_def run_simps split: sum.splits)

text \<open>
  Claim C5, as amended. A failure is a collaborator call that throws, or a malformed
  payload (\<^verbatim>\<open>undefined\<close> or \<^verbatim>\<open>null\<close> in place of the declared type); validate and
  hash-password hand a malformed payload to \<^verbatim>\<open>verifyAsync\<close> and \<^verbatim>\<open>Scrypt.hashPassword\<close> as
  it is, so there it fails only as that call does. No handler throws.
  (1) In register and login every failure makes the service method throw (a malformed
  payload a \<^verbatim>\<open>TypeError\<close>); in hash-password every throwing hashing call does, and in
  refresh every throwing signing call. That error is caught at the gateway boundary:
  the handler logs it, negatively acknowledges, does not acknowledge, and returns its
  default (\<^verbatim>\<open>false\<close> for register, \<^verbatim>\<open>null\<close> otherwise).
  (2) In refresh a malformed payload and a throwing token verification are caught inside
  the service method, which logs the error and returns \<^verbatim>\<open>undefined\<close>; the handler then
  acknowledges, does not negatively acknowledge, and returns \<^verbatim>\<open>undefined\<close>.
  (3) In validate nothing escapes the service method and nothing is logged: the handler
  always acknowledges, never negatively acknowledges, and returns \<^verbatim>\<open>undefined\<close> whenever
  a collaborator threw.
\<close>

theorem thrown_failures:
  "(malformed r \<or> (\<exists>ev \<in> set (events (AuthController_register_raw env r w)). threw ev) \<longrightarrow>
     (\<exists>e. caught_at_gateway (Boolean False)
             (AuthService_register_raw env r w) (AuthController_register_raw env r w) e \<and>
          (malformed r \<and> e = cannot_read r \<or>
           (\<exists>ev \<in> set (events (AuthService_register_raw env r w)). thrown ev = Some e)))) \<and>
   (malformed l \<or> (\<exists>ev \<in> set (events (AuthController_login_raw env l w)). threw ev) \<longrightarrow>
     (\<exists>e. caught_at_gateway Null
             (AuthService_login_raw env l w) (AuthController_login_raw env l w) e \<and>
          (malformed l \<and> e = cannot_read l \<or>
           (\<exists>ev \<in> set (events (AuthService_login_raw env l w)). thrown ev = Some e)))) \<and>
   ((\<exists>ev \<in> set (events (AuthController_hashPassword_raw env p w)). threw ev) \<longrightarrow>
     (\<exists>e. caught_at_gateway Null
             (AuthService_hashPassword_raw env p w) (AuthController_hashPassword_raw env p w) e \<and>
          (\<exists>ev \<in> set (events (AuthService_hashPassword_raw env p w)). thrown ev = Some e))) \<and>
   ((\<exists>ev \<in> set (events (AuthController_refresh_raw env t w)). is_sign ev \<and> threw ev) \<longrightarrow>
     (\<exists>e. caught_at_gateway Null
             (AuthService_refresh_raw env t w) (AuthController_refresh_raw env t w) e \<and>
          (\<exists>ev \<in> set (events (AuthService_refresh_raw env t w)).
             is_sign ev \<and> thrown ev = Some e))) \<and>
   (malformed t \<or>
    (\<exists>ev \<in> set (events (AuthController_refresh_raw env t w)). \<not> is_sign ev \<and> threw ev) \<longrightarrow>
     (\<exists>e. (malformed t \<and> e = cannot_read t \<and>
             events (AuthService_refresh_raw env t w) = [ConsoleLog e] \<or>
           (\<exists>token sec.
              events (AuthService_refresh_raw env t w) =
                [VerifyAsync token sec (Inl e), ConsoleLog e]))) \<and>
     result (AuthService_refresh_raw env t w) = Inr Undefined \<and>
     events (AuthController_refresh_raw env t w) =
       events (AuthService_refresh_raw env t w) @ [Ack] \<and>
     Nack \<notin> set (events (AuthController_refresh_raw env t w)) \<and>
     result (AuthController_refresh_raw env t w) = Inr Undefined) \<and>
   ((\<forall>e. result (AuthService_validateJwt_raw env j w) \<noteq> Inl e) \<and>
    events (AuthController_validate_raw env j w) =
      events (AuthService_validateJwt_raw env j w) @ [Ack] \<and>
    Nack \<notin> set (events (AuthController_validate_raw env j w)) \<and>
    (\<forall>e. ConsoleLog e \<notin> set (events (AuthController_validate_raw env j w))) \<and>
    ((\<exists>ev \<in> set (events (AuthController_validate_raw env j w)). threw ev) \<longrightarrow>
       result (AuthController_validate_raw env j w) = Inr Undefined)) \<and>
   (\<forall>e. result (AuthController_register_raw env r w) \<noteq> Inl e \<and>
        result (AuthController_login_raw env l w) \<noteq> Inl e \<and>
        result (AuthController_hashPassword_raw env p w) \<noteq> Inl e \<and>
        result (AuthController_refresh_raw env t w) \<noteq> Inl e \<and>
        result (AuthController_validate_raw env j w) \<noteq> Inl e)"
proof (intro conjI)
  show "malformed r \<or> (\<exists>ev \<in> set (events (AuthController_register_raw env r w)). threw ev) \<longrightarrow>
     (\<exists>e. caught_at_gateway (Boolean False)
             (AuthService_register_raw env r w) (AuthController_register_raw env r w) e \<and>
          (malformed r \<and> e = cannot_read r \<or>
           (\<exists>ev \<in> set (events (AuthService_register_raw env r w)). thrown ev = Some e)))"
    by (rule register_failures)
  show "malformed l \<or> (\<exists>ev \<in> set (events (AuthController_login_raw env l w)). threw ev) \<longrightarrow>
     (\<exists>e. caught_at_gateway Null
             (AuthService_login_raw env l w) (AuthController_login_raw env l w) e \<and>
          (malformed l \<and> e = cannot_read l \<or>
           (\<exists>ev \<in> set (events (AuthService_login_raw env l w)). thrown ev = Some e)))"
    by (rule login_failures)
  show "(\<exists>ev \<in> set (events (AuthController_hashPassword_raw env p w)). threw ev) \<longrightarrow>
     (\<exists>e. caught_at_gateway Null
             (AuthService_hashPassword_raw env p w) (AuthController_hashPassword_raw env p w) e \<and>
          (\<exists>ev \<in> set (events (AuthService_hashPassword_raw env p w)). thrown ev = Some e))"
    by (rule hashPassword_failures)
  show "(\<exists>ev \<in> set (events (AuthController_refresh_raw env t w)). is_sign ev \<and> threw ev) \<longrightarrow>
     (\<exists>e. caught_at_gateway Null
             (AuthService_refresh_raw env t w) (AuthController_refresh_raw env t w) e \<and>
          (\<exists>ev \<in> set (events (AuthService_refresh_raw env t w)).
             is_sign ev \<and> thrown ev = Some e))"
    by (rule refresh_sign_failures)
  show "malformed t \<or>
    (\<exists>ev \<in> set (events (AuthController_refresh_raw env t w)). \<not> is_sign ev \<and> threw ev) \<longrightarrow>
     (\<exists>e. (malformed t \<and> e = cannot_read t \<and>
             events (AuthService_refresh_raw env t w) = [ConsoleLog e] \<or>
           (\<exists>token sec.
              events (AuthService_refresh_raw env t w) =
                [VerifyAsync token sec (Inl e), ConsoleLog e]))) \<and>
     result (AuthService_refresh_raw env t w) = Inr Undefined \<and>
     events (AuthController_refresh_raw env t w) =
       events (AuthService_refresh_raw env t w) @ [Ack] \<and>
     Nack \<notin> set (events (AuthController_refresh_raw env t w)) \<and>
     result (AuthController_refresh_raw env t w) = Inr Undefined"
    by (rule refresh_inner_failures)
  show "\<forall>e. result (AuthService_validateJwt_raw env j w) \<noteq> Inl e"
    and "events (AuthController_validate_raw env j w) =
      events (AuthService_validateJwt_raw env j w) @ [Ack]"
    and "Nack \<notin> set (events (AuthController_validate_raw env j w))"
    and "\<forall>e. ConsoleLog e \<notin> set (events (AuthController_validate_raw env j w))"
    and "(\<exists>ev \<in> set (events (AuthController_validate_raw env j w)). threw ev) \<longrightarrow>
       result (AuthController_validate_raw env j w) = Inr Undefined"
    using validate_failures [of env j w] by blast+
  show "\<forall>e. result (AuthController_register_raw env r w) \<noteq> Inl e \<and>
        result (AuthController_login_raw env l w) \<noteq> Inl e \<and>
        result (AuthController_hashPassword_raw env p w) \<noteq> Inl e \<and>
        result (AuthController_refresh_raw env t w) \<noteq> Inl e \<and>
        result (AuthController_validate_raw env j w) \<noteq> Inl e"
    using handlers_never_throw [of env r w _ l p t j] by blast
qed

lemma malformed_runs:
  "result (AuthService_register_raw demo_env Undefined demo_dir) =
     Inl (TypeError ''Cannot read properties of undefined'')"
  "events (AuthService_register_raw demo_env Undefined demo_dir) = []"
  "events (AuthService_refresh_raw demo_env Null demo_dir) =
     [ConsoleLog (TypeError ''Cannot read properties of null'')]"
  by (simp_all add: AuthService_register_raw_def AuthService_refresh_raw_def run_simps)

theorem thrown_failures_witness:
  "result (AuthController_register_raw demo_env Undefined demo_dir) = Inr (Boolean False) \<and>
   events (AuthController_register_raw demo_env Undefined demo_dir) =
     [ConsoleLog (TypeError ''Cannot read properties of undefined''), Nack] \<and>
   result (AuthController_login_raw unreachable_env
             (Val \<lparr>usernameOrEmail = ''alice'', LoginUserDto.password = ''pw''\<rparr>) demo_dir) =
     Inr Null \<and>
   result (AuthController_hashPassword_raw broken_env (Val ''pw'') demo_dir) = Inr Null \<and>
   result (AuthController_refresh_raw broken_env (Val ''Bearer R.7d.u1'') demo_dir) = Inr Null \<and>
   result (AuthController_refresh_raw demo_env (Val ''Bearer R.x.u1'') demo_dir) =
     Inr Undefined \<and>
   result (AuthController_refresh_raw demo_env Null demo_dir) = Inr Undefined \<and>
   events (AuthController_refresh_raw demo_env Null demo_dir) =
     [ConsoleLog (TypeError ''Cannot read properties of null''), Ack] \<and>
   result (AuthController_validate_raw unreachable_env (Val ''A.3m.u1'') demo_dir) =
     Inr Undefined"
proof -
  note malformed_register =
    thrown_failures [where env = demo_env and w = demo_dir and r = Undefined,
      THEN conjunct1]
  note unreachable =
    thrown_failures [where env = unreachable_env and w = demo_dir
      and l = "Val \<lparr>usernameOrEmail = ''alice'', LoginUserDto.password = ''pw''\<rparr>"
      and j = "Val ''A.3m.u1''"]
  note broken =
    thrown_failures [where env = broken_env and w = demo_dir
      and p = "Val ''pw''" and t = "Val ''Bearer R.7d.u1''"]
  note expired =
    thrown_failures [where env = demo_env and w = demo_dir and t = "Val ''Bearer R.x.u1''"]
  note malformed_refresh =
    thrown_failures [where env = demo_env and w = demo_dir and t = Null]
  have 1: "result (AuthController_register_raw demo_env Undefined demo_dir) = Inr (Boolean False)"
    "events (AuthController_register_raw demo_env Undefined demo_dir) =
       [ConsoleLog (TypeError ''Cannot read properties of undefined''), Nack]"
    using malformed_register by (auto simp add: caught_at_gateway_def malformed_runs)
  have 2: "result (AuthController_login_raw unreachable_env
             (Val \<lparr>usernameOrEmail = ''alice'', LoginUserDto.password = ''pw''\<rparr>) demo_dir) =
     Inr Null"
    using unreachable [THEN conjunct2, THEN conjunct1]
    by (auto simp add: caught_at_gateway_def raw_Val unreachable_runs)
  have 3: "result (AuthController_hashPassword_raw broken_env (Val ''pw'') demo_dir) = Inr Null"
    using broken [THEN conjunct2, THEN conjunct2, THEN conjunct1]
    by (auto simp add: caught_at_gateway_def raw_Val broken_runs)
  have 4: "result (AuthController_refresh_raw broken_env (Val ''Bearer R.7d.u1'') demo_dir) =
     Inr Null"
    using broken [THEN conjunct2, THEN conjunct2, THEN conjunct2, THEN conjunct1]
    by (auto simp add: caught_at_gateway_def raw_Val broken_runs)
  have 5: "result (AuthController_refresh_raw demo_env (Val ''Bearer R.x.u1'') demo_dir) =
     Inr Undefined"
    using expired [THEN conjunct2, THEN conjunct2, THEN conjunct2, THEN conjunct2, THEN conjunct1]
    by (simp add: raw_Val broken_runs)
  have 6: "result (AuthController_refresh_raw demo_env Null demo_dir) = Inr Undefined"
    "events (AuthController_refresh_raw demo_env Null demo_dir) =
       [ConsoleLog (TypeError ''Cannot read properties of null''), Ack]"
    using malformed_refresh
      [THEN conjunct2, THEN conjunct2, THEN conjunct2, THEN conjunct2, THEN conjunct1]
    by (simp_all add: malformed_runs)
  have 7: "result (AuthController_validate_raw unreachable_env (Val ''A.3m.u1'') demo_dir) =
     Inr Undefined"
    using unreachable
      [THEN conjunct2, THEN conjunct2, THEN conjunct2, THEN conjunct2, THEN conjunct2,
       THEN conjunct1]
    by (simp add: raw_Val unreachable_runs)
  from 1 2 3 4 5 6 7 show ?thesis by simp
qed

text \<open>
  Claim C6. For each of the five handlers and every request, exactly one of \<^verbatim>\<open>ack()\<close> and
  \<^verbatim>\<open>nack()\<close> fires, as the last thing the handler does: when the service method returns
  a value (a business-error value included) the handler acknowledges and returns that
  value; when it throws, the handler logs the error, negatively acknowledges and returns
  \<^verbatim>\<open>false\<close> (register) or \<^verbatim>\<open>null\<close> (the other four).
\<close>

theorem ack_exactly_once:
  "settled_once id (Boolean False)
     (AuthService_register env r w) (AuthController_register env r w) \<and>
   settled_once id Null
     (AuthService_login env l w) (AuthController_login env l w) \<and>
   settled_once id Null
     (AuthService_refresh env t w) (AuthController_refresh env t w) \<and>
   settled_once Val Null
     (AuthService_hashPassword env p w) (AuthController_hashPassword env p w) \<and>
   settled_once id Null
     (AuthService_validateJwt env j w) (AuthController_validate env j w)"
proof (intro conjI)
  show "settled_once id (Boolean False)
     (AuthService_register env r w) (AuthController_register env r w)"
    using handler_settled_once [of "AuthService_register env r" w id "Boolean False"]
    by (simp add: AuthController_register_def no_settle_register)
  show "settled_once id Null (AuthService_login env l w) (AuthController_login env l w)"
    using handler_settled_once [of "AuthService_login env l" w id Null]
    by (simp add: AuthController_login_def no_settle_login)
  show "settled_once id Null (AuthService_refresh env t w) (AuthController_refresh env t w)"
    using handler_settled_once [of "AuthService_refresh env t" w id Null]
    by (simp add: AuthController_refresh_def no_settle_refresh)
  show "settled_once Val Null
     (AuthService_hashPassword env p w) (AuthController_hashPassword env p w)"
    using handler_settled_once [of "AuthService_hashPassword env p" w Val Null]
    by (simp add: AuthController_hashPassword_def no_settle_hashPassword)
  show "settled_once id Null
     (AuthService_validateJwt env j w) (AuthController_validate env j w)"
    using handler_settled_once [of "AuthService_validateJwt env j" w id Null]
    by (simp add: AuthController_validate_def no_settle_validateJwt)
qed

lemma unreachable_login_result:
  "result (AuthService_login unreachable_env
             \<lparr>usernameOrEmail = ''alice'', LoginUserDto.password = ''pw''\<rparr> demo_dir) =
     Inl (Error ''directory unreachable'')"
  by (simp add: AuthService_login_def validateUser_def run_simps collaborator_defs
      unreachable_env_def)

theorem ack_exactly_once_witness:
  "length (filter settles
     (events (AuthController_login demo_env
                \<lparr>usernameOrEmail = ''alice'', LoginUserDto.password = ''pw''\<rparr> demo_dir))) = 1 \<and>
   events (AuthController_login demo_env
             \<lparr>usernameOrEmail = ''alice'', LoginUserDto.password = ''pw''\<rparr> demo_dir) =
     events (AuthService_login demo_env
             \<lparr>usernameOrEmail = ''alice'', LoginUserDto.password = ''pw''\<rparr> demo_dir) @ [Ack] \<and>
   result (AuthController_login demo_env
             \<lparr>usernameOrEmail = ''alice'', LoginUserDto.password = ''pw''\<rparr> demo_dir) =
     Inr (Val \<lparr>accessToken = ''A.3m.u1'', refreshToken = ''R.7d.u1''\<rparr>) \<and>
   events (AuthController_login unreachable_env
             \<lparr>usernameOrEmail = ''alice'', LoginUserDto.password = ''pw''\<rparr> demo_dir) =
     events (AuthService_login unreachable_env
             \<lparr>usernameOrEmail = ''alice'', LoginUserDto.password = ''pw''\<rparr> demo_dir) @
       [ConsoleLog (Error ''directory unreachable''), Nack] \<and>
   result (AuthController_login unreachable_env
             \<lparr>usernameOrEmail = ''alice'', LoginUserDto.password = ''pw''\<rparr> demo_dir) = Inr Null"
  using
    ack_exactly_once [of demo_env _ demo_dir
      "\<lparr>usernameOrEmail = ''alice'', LoginUserDto.password = ''pw''\<rparr>"]
    ack_exactly_once [of unreachable_env _ demo_dir
      "\<lparr>usernameOrEmail = ''alice'', LoginUserDto.password = ''pw''\<rparr>"]
  by (simp add: settled_once_def demo_login_result unreachable_login_result no_settle_login)

section \<open>Order of effects in a login\<close>

lemma login_shape:
  "((\<forall>e \<in> set (events (AuthService_login env dto w)). \<not> is_sign e) \<and>
    (\<forall>up r. Send_update_password up r \<notin> set (events (AuthService_login env dto w))) \<and>
    (\<forall>jwt. result (AuthService_login env dto w) \<noteq> Inr (Val jwt))) \<or>
   (\<exists>u d r.
      r \<noteq> Inr True \<and>
      events (AuthService_login env dto w) =
        [Send_find_user
           \<lparr>EmailAndUsernameDto.email = usernameOrEmail dto,
            EmailAndUsernameDto.username = usernameOrEmail dto\<rparr> (Inr (Some u)),
         ScryptVerify (LoginUserDto.password dto) (User.password u) (Inr True),
         ScryptHash (LoginUserDto.password dto) (Inr d),
         Send_update_password \<lparr>userId = user_id u, UpdatePassword.password = d\<rparr> r] \<and>
      (\<forall>jwt. result (AuthService_login env dto w) \<noteq> Inr (Val jwt))) \<or>
   (\<exists>u d ra rb.
      events (AuthService_login env dto w) =
        [Send_find_user
           \<lparr>EmailAndUsernameDto.email = usernameOrEmail dto,
            EmailAndUsernameDto.username = usernameOrEmail dto\<rparr> (Inr (Some u)),
         ScryptVerify (LoginUserDto.password dto) (User.password u) (Inr True),
         ScryptHash (LoginUserDto.password dto) (Inr d),
         Send_update_password \<lparr>userId = user_id u, UpdatePassword.password = d\<rparr> (Inr True),
         SignAsync \<lparr>sub = user_id u\<rparr>
           \<lparr>expiresIn = ''3m'', secret = process_env env JWT_ACCESS_SECRET\<rparr> ra,
         SignAsync \<lparr>sub = user_id u\<rparr>
           \<lparr>expiresIn = ''7d'', secret = process_env env JWT_REFRESH_SECRET\<rparr> rb] \<and>
      (\<forall>jwt. result (AuthService_login env dto w) = Inr (Val jwt) \<longrightarrow>
         ra = Inr (accessToken jwt) \<and> rb = Inr (refreshToken jwt)))"
  by (simp add: AuthService_login_def validateUser_def generateJWT_def run_simps
      collaborator_defs split: sum.splits option.splits)

text \<open>
  Claim C7. In the trace of any login, with \<open>pw\<close> the submitted password:
  (1) every password write-back is preceded by a successful verification of \<open>pw\<close> against
  the stored digest and, after it, by a hashing of the same \<open>pw\<close> whose output is the
  digest written back for the verified user;
  (2) every signing call is preceded, in this order, by that verification, that hashing
  and a write-back that returned true;
  (3) a returned token pair consists of the outputs of two signing calls of the trace;
  (4) after a write-back that did not return true (it returned false or threw) there is
  no signing call and no token pair.
  The salt is chosen inside \<^verbatim>\<open>Scrypt.hashPassword\<close>, a parameter here.
\<close>

theorem login_order:
  "let out = AuthService_login env dto w;
       pw = LoginUserDto.password dto
   in
     (\<forall>up r. Send_update_password up r \<in> set (events out) \<longrightarrow>
        (\<exists>(u::User) d.
           up = \<lparr>userId = user_id u, UpdatePassword.password = d\<rparr> \<and>
           subseq
             [ScryptVerify pw (User.password u) (Inr True),
              ScryptHash pw (Inr d),
              Send_update_password up r]
             (events out))) \<and>
     (\<forall>e \<in> set (events out). is_sign e \<longrightarrow>
        (\<exists>(u::User) d.
           subseq
             [ScryptVerify pw (User.password u) (Inr True),
              ScryptHash pw (Inr d),
              Send_update_password \<lparr>userId = user_id u, UpdatePassword.password = d\<rparr> (Inr True),
              e]
             (events out))) \<and>
     (\<forall>jwt. result out = Inr (Val jwt) \<longrightarrow>
        (\<exists>payload oa orf.
           subseq
             [SignAsync payload oa (Inr (accessToken jwt)),
              SignAsync payload orf (Inr (refreshToken jwt))]
             (events out))) \<and>
     (\<forall>up r. Send_update_password up r \<in> set (events out) \<and> r \<noteq> Inr True \<longrightarrow>
        (\<forall>e \<in> set (events out). \<not> is_sign e) \<and> (\<forall>jwt. result out \<noteq> Inr (Val jwt)))"
proof -
  from login_shape [of env dto w] show ?thesis
  proof (elim disjE exE conjE)
    assume "\<forall>e \<in> set (events (AuthService_login env dto w)). \<not> is_sign e"
      and "\<forall>up r. Send_update_password up r \<notin> set (events (AuthService_login env dto w))"
      and "\<forall>jwt. result (AuthService_login env dto w) \<noteq> Inr (Val jwt)"
    then show ?thesis by (simp add: Let_def)
  next
    fix u d r
    assume r: "r \<noteq> Inr True"
      and ev: "events (AuthService_login env dto w) =
        [Send_find_user
           \<lparr>EmailAndUsernameDto.email = usernameOrEmail dto,
            EmailAndUsernameDto.username = usernameOrEmail dto\<rparr> (Inr (Some u)),
         ScryptVerify (LoginUserDto.password dto) (User.password u) (Inr True),
         ScryptHash (LoginUserDto.password dto) (Inr d),
         Send_update_password \<lparr>userId = user_id u, UpdatePassword.password = d\<rparr> r]"
      and res: "\<forall>jwt. result (AuthService_login env dto w) \<noteq> Inr (Val jwt)"
    have 1: "\<exists>(u'::User) d'.
           up = \<lparr>userId = user_id u', UpdatePassword.password = d'\<rparr> \<and>
           subseq
             [ScryptVerify (LoginUserDto.password dto) (User.password u') (Inr True),
              ScryptHash (LoginUserDto.password dto) (Inr d'),
              Send_update_password up r']
             (events (AuthService_login env dto w))"
      if "Send_update_password up r' \<in> set (events (AuthService_login env dto w))" for up r'
      using that unfolding ev by (intro exI [of _ u] exI [of _ d]) simp
    have 2: "\<forall>e \<in> set (events (AuthService_login env dto w)). \<not> is_sign e"
      unfolding ev by simp
    from 1 2 res show ?thesis unfolding Let_def by blast
  next
    fix u d ra rb
    assume ev: "events (AuthService_login env dto w) =
        [Send_find_user
           \<lparr>EmailAndUsernameDto.email = usernameOrEmail dto,
            EmailAndUsernameDto.username = usernameOrEmail dto\<rparr> (Inr (Some u)),
         ScryptVerify (LoginUserDto.password dto) (User.password u) (Inr True),
         ScryptHash (LoginUserDto.password dto) (Inr d),
         Send_update_password \<lparr>userId = user_id u, UpdatePassword.password = d\<rparr> (Inr True),
         SignAsync \<lparr>sub = user_id u\<rparr>
           \<lparr>expiresIn = ''3m'', secret = process_env env JWT_ACCESS_SECRET\<rparr> ra,
         SignAsync \<lparr>sub = user_id u\<rparr>
           \<lparr>expiresIn = ''7d'', secret = process_env env JWT_REFRESH_SECRET\<rparr> rb]"
      and res: "\<forall>jwt. result (AuthService_login env dto w) = Inr (Val jwt) \<longrightarrow>
         ra = Inr (accessToken jwt) \<and> rb = Inr (refreshToken jwt)"
    have 0: "\<exists>(u'::User) d'.
           up = \<lparr>userId = user_id u', UpdatePassword.password = d'\<rparr> \<and>
           subseq
             [ScryptVerify (LoginUserDto.password dto) (User.password u') (Inr True),
              ScryptHash (LoginUserDto.password dto) (Inr d'),
              Send_update_password up r']
             (events (AuthService_login env dto w))"
      if "Send_update_password up r' \<in> set (events (AuthService_login env dto w))" for up r'
      using that unfolding ev by (intro exI [of _ u] exI [of _ d]) simp
    have 1: "\<exists>(u'::User) d'.
           subseq
             [ScryptVerify (LoginUserDto.password dto) (User.password u') (Inr True),
              ScryptHash (LoginUserDto.password dto) (Inr d'),
              Send_update_password \<lparr>userId = user_id u', UpdatePassword.password = d'\<rparr> (Inr True),
              e]
             (events (AuthService_login env dto w))"
      if "e \<in> set (events (AuthService_login env dto w))" "is_sign e" for e
    proof (intro exI [of _ u] exI [of _ d])
      from that ev have "e = SignAsync \<lparr>sub = user_id u\<rparr>
           \<lparr>expiresIn = ''3m'', secret = process_env env JWT_ACCESS_SECRET\<rparr> ra \<or>
         e = SignAsync \<lparr>sub = user_id u\<rparr>
           \<lparr>expiresIn = ''7d'', secret = process_env env JWT_REFRESH_SECRET\<rparr> rb"
        by auto
      then show "subseq
             [ScryptVerify (LoginUserDto.password dto) (User.password u) (Inr True),
              ScryptHash (LoginUserDto.password dto) (Inr d),
              Send_update_password \<lparr>userId = user_id u, UpdatePassword.password = d\<rparr> (Inr True),
              e]
             (events (AuthService_login env dto w))"
        unfolding ev by (elim disjE) simp_all
    qed
    have 2: "\<exists>payload oa orf.
           subseq
             [SignAsync payload oa (Inr (accessToken jwt)),
              SignAsync payload orf (Inr (refreshToken jwt))]
             (events (AuthService_login env dto w))"
      if "result (AuthService_login env dto w) = Inr (Val jwt)" for jwt
    proof -
      from res that have "ra = Inr (accessToken jwt)" "rb = Inr (refreshToken jwt)" by auto
      then have "subseq
             [SignAsync \<lparr>sub = user_id u\<rparr>
                \<lparr>expiresIn = ''3m'', secret = process_env env JWT_ACCESS_SECRET\<rparr>
                (Inr (accessToken jwt)),
              SignAsync \<lparr>sub = user_id u\<rparr>
                \<lparr>expiresIn = ''7d'', secret = process_env env JWT_REFRESH_SECRET\<rparr>
                (Inr (refreshToken jwt))]
             (events (AuthService_login env dto w))"
        unfolding ev by simp
      then show ?thesis by blast
    qed
    have 3: "(\<forall>e \<in> set (events (AuthService_login env dto w)). \<not> is_sign e) \<and>
        (\<forall>jwt. result (AuthService_login env dto w) \<noteq> Inr (Val jwt))"
      if "Send_update_password up r \<in> set (events (AuthService_login env dto w))" "r \<noteq> Inr True"
      for up r
      using that unfolding ev by auto
    from 0 1 2 3 show ?thesis unfolding Let_def by blast
  qed
qed

theorem login_order_witness:
  "(\<exists>(u::User) d.
      subseq
        [ScryptVerify ''pw'' (User.password u) (Inr True),
         ScryptHash ''pw'' (Inr d),
         Send_update_password \<lparr>userId = user_id u, UpdatePassword.password = d\<rparr> (Inr True),
         SignAsync \<lparr>sub = ''u1''\<rparr> \<lparr>expiresIn = ''3m'', secret = Some ''A''\<rparr> (Inr ''A.3m.u1'')]
        (events (AuthService_login demo_env
                   \<lparr>usernameOrEmail = ''alice'', LoginUserDto.password = ''pw''\<rparr> demo_dir))) \<and>
   (\<exists>(u::User) d.
      \<lparr>userId = ''u1'', UpdatePassword.password = ''scrypt:pw''\<rparr> =
        \<lparr>userId = user_id u, UpdatePassword.password = d\<rparr> \<and>
      subseq
        [ScryptVerify ''pw'' (User.password u) (Inr True),
         ScryptHash ''pw'' (Inr d),
         Send_update_password \<lparr>userId = ''u1'', UpdatePassword.password = ''scrypt:pw''\<rparr>
           (Inr False)]
        (events (AuthService_login readonly_env
                   \<lparr>usernameOrEmail = ''alice'', LoginUserDto.password = ''pw''\<rparr> demo_dir))) \<and>
   list_all (\<lambda>e. \<not> is_sign e)
     (events (AuthService_login readonly_env
                \<lparr>usernameOrEmail = ''alice'', LoginUserDto.password = ''pw''\<rparr> demo_dir)) \<and>
   (\<exists>payload oa orf.
      subseq
        [SignAsync payload oa (Inr ''A.3m.u1''), SignAsync payload orf (Inr ''R.7d.u1'')]
        (events (AuthService_login demo_env
                   \<lparr>usernameOrEmail = ''alice'', LoginUserDto.password = ''pw''\<rparr> demo_dir)))"
proof -
  note ok = login_order [of demo_env
      "\<lparr>usernameOrEmail = ''alice'', LoginUserDto.password = ''pw''\<rparr>" demo_dir,
      unfolded Let_def]
  note ro = login_order [of readonly_env
      "\<lparr>usernameOrEmail = ''alice'', LoginUserDto.password = ''pw''\<rparr>" demo_dir,
      unfolded Let_def]
  have sign_in:
    "SignAsync \<lparr>sub = ''u1''\<rparr> \<lparr>expiresIn = ''3m'', secret = Some ''A''\<rparr> (Inr ''A.3m.u1'')
       \<in> set (events (AuthService_login demo_env
                   \<lparr>usernameOrEmail = ''alice'', LoginUserDto.password = ''pw''\<rparr> demo_dir))"
    by (simp add: demo_login_events)
  have upd_in:
    "Send_update_password \<lparr>userId = ''u1'', UpdatePassword.password = ''scrypt:pw''\<rparr> (Inr False)
       \<in> set (events (AuthService_login readonly_env
                   \<lparr>usernameOrEmail = ''alice'', LoginUserDto.password = ''pw''\<rparr> demo_dir))"
    by (simp add: readonly_login_events)
  from ok [THEN conjunct2, THEN conjunct1, rule_format, OF sign_in] have first:
    "\<exists>(u::User) d.
      subseq
        [ScryptVerify ''pw'' (User.password u) (Inr True),
         ScryptHash ''pw'' (Inr d),
         Send_update_password \<lparr>userId = user_id u, UpdatePassword.password = d\<rparr> (Inr True),
         SignAsync \<lparr>sub = ''u1''\<rparr> \<lparr>expiresIn = ''3m'', secret = Some ''A''\<rparr> (Inr ''A.3m.u1'')]
        (events (AuthService_login demo_env
                   \<lparr>usernameOrEmail = ''alice'', LoginUserDto.password = ''pw''\<rparr> demo_dir))"
    by simp
  have second:
    "\<exists>(u::User) d.
      \<lparr>userId = ''u1'', UpdatePassword.password = ''scrypt:pw''\<rparr> =
        \<lparr>userId = user_id u, UpdatePassword.password = d\<rparr> \<and>
      subseq
        [ScryptVerify ''pw'' (User.password u) (Inr True),
         ScryptHash ''pw'' (Inr d),
         Send_update_password \<lparr>userId = ''u1'', UpdatePassword.password = ''scrypt:pw''\<rparr>
           (Inr False)]
        (events (AuthService_login readonly_env
                   \<lparr>usernameOrEmail = ''alice'', LoginUserDto.password = ''pw''\<rparr> demo_dir))"
    using ro [THEN conjunct1, rule_format, OF upd_in] by simp
  from ro [THEN conjunct2, THEN conjunct2, THEN conjunct2, rule_format, of _ "Inr False"] upd_in
  have third:
    "list_all (\<lambda>e. \<not> is_sign e)
       (events (AuthService_login readonly_env
                  \<lparr>usernameOrEmail = ''alice'', LoginUserDto.password = ''pw''\<rparr> demo_dir))"
    by (auto simp add: list_all_iff)
  have fourth:
    "\<exists>payload oa orf.
      subseq
        [SignAsync payload oa (Inr ''A.3m.u1''), SignAsync payload orf (Inr ''R.7d.u1'')]
        (events (AuthService_login demo_env
                   \<lparr>usernameOrEmail = ''alice'', LoginUserDto.password = ''pw''\<rparr> demo_dir))"
    using ok [THEN conjunct2, THEN conjunct2, THEN conjunct1, rule_format, OF demo_login_result]
    by simp
  from first second third fourth show ?thesis by blast
qed

section \<open>Token issuance\<close>

text \<open>
  Claim C8. Issuing a pair makes exactly two signing calls over the given payload, and
  what it returns is what those two calls return: the access token is the output of
  \<^verbatim>\<open>signAsync\<close> with \<^verbatim>\<open>expiresIn: '3m'\<close> (the signing library's notation for 3 minutes)
  under \<^verbatim>\<open>process.env.JWT_ACCESS_SECRET\<close>, the refresh token the output of \<^verbatim>\<open>signAsync\<close>
  with \<^verbatim>\<open>expiresIn: '7d'\<close> (7 days) under \<^verbatim>\<open>process.env.JWT_REFRESH_SECRET\<close>, the other
  variable. Both calls are made whatever the other returns or throws, and the arguments
  of each are fixed by the payload and the environment alone, so neither waits for or
  uses the other's output. A pair is returned exactly when both calls return; when one
  throws, the error is thrown on.
\<close>

theorem generateJWT_pair:
  "let access_opts = \<lparr>expiresIn = ''3m'', secret = process_env env JWT_ACCESS_SECRET\<rparr>;
       refresh_opts = \<lparr>expiresIn = ''7d'', secret = process_env env JWT_REFRESH_SECRET\<rparr>;
       signed_access = jwt_signAsync env payload access_opts w;
       signed_refresh = jwt_signAsync env payload refresh_opts (snd signed_access);
       out = generateJWT env payload w
   in
     events out =
       [SignAsync payload access_opts (fst signed_access),
        SignAsync payload refresh_opts (fst signed_refresh)] \<and>
     world out = snd signed_refresh \<and>
     result out =
       (case fst signed_access of
          Inl e \<Rightarrow> Inl e
        | Inr a \<Rightarrow>
            (case fst signed_refresh of
               Inl e \<Rightarrow> Inl e
             | Inr r \<Rightarrow> Inr \<lparr>accessToken = a, refreshToken = r\<rparr>))"
  by (simp add: Let_def generateJWT_def run_simps collaborator_defs split: sum.splits)

theorem generateJWT_pair_witness:
  "generateJWT demo_env \<lparr>sub = ''u1''\<rparr> demo_dir =
     \<lparr>result = Inr \<lparr>accessToken = ''A.3m.u1'', refreshToken = ''R.7d.u1''\<rparr>,
      world = demo_dir,
      events =
        [SignAsync \<lparr>sub = ''u1''\<rparr> \<lparr>expiresIn = ''3m'', secret = Some ''A''\<rparr> (Inr ''A.3m.u1''),
         SignAsync \<lparr>sub = ''u1''\<rparr> \<lparr>expiresIn = ''7d'', secret = Some ''R''\<rparr> (Inr ''R.7d.u1'')]\<rparr> \<and>
   generateJWT broken_env \<lparr>sub = ''u1''\<rparr> demo_dir =
     \<lparr>result = Inl (Error ''signing failed''),
      world = demo_dir,
      events =
        [SignAsync \<lparr>sub = ''u1''\<rparr> \<lparr>expiresIn = ''3m'', secret = Some ''A''\<rparr>
           (Inl (Error ''signing failed'')),
         SignAsync \<lparr>sub = ''u1''\<rparr> \<lparr>expiresIn = ''7d'', secret = Some ''R''\<rparr>
           (Inl (Error ''signing failed''))]\<rparr>"
proof -
  have broken:
    "process_env broken_env JWT_ACCESS_SECRET = Some ''A''"
    "process_env broken_env JWT_REFRESH_SECRET = Some ''R''"
    "jwt_signAsync broken_env payload opts dir = (Inl (Error ''signing failed''), dir)"
    for payload opts dir
    by (simp_all add: broken_env_def demo_env_def)
  have eq: "out = \<lparr>result = result out, world = world out, events = events out\<rparr>"
    for out :: "(directory, Jwt) outcome"
    by simp
  show ?thesis
    using generateJWT_pair [of demo_env "\<lparr>sub = ''u1''\<rparr>" demo_dir]
      generateJWT_pair [of broken_env "\<lparr>sub = ''u1''\<rparr>" demo_dir]
    by (subst eq, subst (2) eq) (simp add: Let_def demo_process_env demo_refresh_facts broken)
qed

section \<open>Password hashing\<close>

text \<open>
  Claim C9. The service method hands back what \<^verbatim>\<open>Scrypt.hashPassword\<close> returns or throws
  and adds no failure of its own. With \<^verbatim>\<open>Scrypt.hashPassword\<close> as the specification
  describes it, hashing any plaintext returns a digest: the service method returns it,
  the handler acknowledges and returns the same digest, and the handler's error branch
  (log, \<^verbatim>\<open>nack()\<close>, \<^verbatim>\<open>null\<close>) is not taken.
\<close>

theorem hashPassword_never_fails:
  "result (AuthService_hashPassword env plaintext w) = fst (Scrypt_hashPassword env plaintext w) \<and>
   (\<exists>digest.
     result (AuthService_hashPassword
               (env\<lparr>Scrypt_hashPassword := spec_Scrypt_hashPassword fresh_salt derive\<rparr>)
               plaintext w) =
       Inr digest \<and>
     result (AuthController_hashPassword
               (env\<lparr>Scrypt_hashPassword := spec_Scrypt_hashPassword fresh_salt derive\<rparr>)
               plaintext w) =
       Inr (Val digest) \<and>
     events (AuthController_hashPassword
               (env\<lparr>Scrypt_hashPassword := spec_Scrypt_hashPassword fresh_salt derive\<rparr>)
               plaintext w) =
       [ScryptHash plaintext (Inr digest), Ack])"
  by (simp add: AuthController_hashPassword_def run_simps collaborator_defs
      spec_Scrypt_hashPassword_def split: prod.splits)

lemma spec_hash_run:
  "result (AuthService_hashPassword
             (demo_env\<lparr>Scrypt_hashPassword :=
                spec_Scrypt_hashPassword (\<lambda>dir. (''s1'', dir)) (\<lambda>salt plain. rev plain)\<rparr>)
             ''pw'' demo_dir) =
     Inr ''s1:wp''"
  by (simp add: run_simps collaborator_defs spec_Scrypt_hashPassword_def)

theorem hashPassword_never_fails_witness:
  "result (AuthController_hashPassword
             (demo_env\<lparr>Scrypt_hashPassword :=
                spec_Scrypt_hashPassword (\<lambda>dir. (''s1'', dir)) (\<lambda>salt plain. rev plain)\<rparr>)
             ''pw'' demo_dir) =
     Inr (Val ''s1:wp'') \<and>
   events (AuthController_hashPassword
             (demo_env\<lparr>Scrypt_hashPassword :=
                spec_Scrypt_hashPassword (\<lambda>dir. (''s1'', dir)) (\<lambda>salt plain. rev plain)\<rparr>)
             ''pw'' demo_dir) =
     [ScryptHash ''pw'' (Inr ''s1:wp''), Ack]"
  using hashPassword_never_fails [where env = demo_env and fresh_salt = "\<lambda>dir. (''s1'', dir)"
      and derive = "\<lambda>salt plain. rev plain" and plaintext = "''pw''" and w = demo_dir]
  by (auto simp add: spec_hash_run)

section \<open>The HTTP endpoints\<close>

text \<open>
  Claim C10. Whatever value the auth service's reply arrives as at the login and refresh
  endpoints, the body's \<^verbatim>\<open>isOk\<close> is \<^verbatim>\<open>jwt !== null\<close>. When the reply is \<^verbatim>\<open>undefined\<close>, the
  response has status 400 (login) or 401 (refresh), \<^verbatim>\<open>isOk: true\<close>, and neither error code
  nor message.
\<close>

theorem http_isOk_flag:
  "(\<forall>jwt. result (send_login dto w) = Inr jwt \<longrightarrow>
      (\<exists>resp. result (AppController_login send_login dto w) = Inr resp \<and>
         isOk (body resp) = (jwt \<noteq> Null) \<and>
         (jwt = Undefined \<longrightarrow>
            status resp = 400 \<and> isOk (body resp) \<and>
            errorCode (body resp) = None \<and> message (body resp) = None))) \<and>
   (\<forall>jwt. result (send_refresh (headers req ''x-refresh-token'') w) = Inr jwt \<longrightarrow>
      (\<exists>resp. result (AppController_refreshToken send_refresh req w) = Inr resp \<and>
         isOk (body resp) = (jwt \<noteq> Null) \<and>
         (jwt = Undefined \<longrightarrow>
            status resp = 401 \<and> isOk (body resp) \<and>
            errorCode (body resp) = None \<and> message (body resp) = None)))"
  by (simp add: AppController_login_def AppController_refreshToken_def run_simps Let_def)

theorem http_isOk_flag_witness:
  "(\<exists>resp.
      result (AppController_login (\<lambda>dto. resolve Undefined)
                \<lparr>usernameOrEmail = ''alice'', LoginUserDto.password = ''bad''\<rparr> ()) = Inr resp \<and>
      status resp = 400 \<and> isOk (body resp) \<and>
      errorCode (body resp) = None \<and> message (body resp) = None) \<and>
   (\<exists>resp.
      result (AppController_refreshToken (\<lambda>h. resolve Undefined)
                \<lparr>headers = (\<lambda>name. None)\<rparr> ()) = Inr resp \<and>
      status resp = 401 \<and> isOk (body resp) \<and>
      errorCode (body resp) = None \<and> message (body resp) = None)"
  using http_isOk_flag [where send_login = "\<lambda>dto. resolve Undefined"
      and dto = "\<lparr>usernameOrEmail = ''alice'', LoginUserDto.password = ''bad''\<rparr>" and w = "()"
      and send_refresh = "\<lambda>h. resolve Undefined" and req = "\<lparr>headers = (\<lambda>name. None)\<rparr>"]
  by (auto simp add: run_resolve)

end
